theory Spec2Isabelle
  imports Complex_Main
begin

section \<open>Attribute values and resource data\<close>

text \<open>
  The resource functions of the provider read and write a \<open>*schema.ResourceData\<close>.
  Its attributes are keyed by name; a value is one of the schema's types. A Go
  \<open>int\<close>/\<open>int64\<close> is an \<open>int\<close> (the code only copies and compares these numbers), a
  \<open>float64\<close> a \<open>real\<close> (the code only copies it and compares it with zero), a list of
  nested objects (\<open>tier\<close>, \<open>transform_usage\<close>) a list of association lists.
\<close>

datatype val =
    VInt int
  | VFloat real
  | VBool bool
  | VString string
  | VMap "(string \<times> string) list"
  | VList "string list"
  | VObjs "(string \<times> val) list list"

text \<open>The zero value of the attribute's type, which \<open>GetOk\<close> treats as "not set".\<close>

fun isZero :: "val \<Rightarrow> bool" where
  "isZero (VInt n) = (n = 0)"
| "isZero (VFloat x) = (x = 0)"
| "isZero (VBool b) = (\<not> b)"
| "isZero (VString s) = (s = [])"
| "isZero (VMap m) = (m = [])"
| "isZero (VList xs) = (xs = [])"
| "isZero (VObjs ts) = (ts = [])"

text \<open>
  Type assertions \<open>v.(int)\<close>, \<open>v.(string)\<close>, ... on a value read from the resource data.
  The schema fixes the type of every attribute, so the assertion finds the type it
  names; on an absent attribute \<open>d.Get\<close> yields the zero value of the type.
\<close>

fun intOf :: "val \<Rightarrow> int" where
  "intOf (VInt n) = n"
| "intOf _ = 0"

fun floatOf :: "val \<Rightarrow> real" where
  "floatOf (VFloat x) = x"
| "floatOf _ = 0"

fun boolOf :: "val \<Rightarrow> bool" where
  "boolOf (VBool b) = b"
| "boolOf _ = False"

fun stringOf :: "val \<Rightarrow> string" where
  "stringOf (VString s) = s"
| "stringOf _ = []"

fun mapOf :: "val \<Rightarrow> (string \<times> string) list" where
  "mapOf (VMap m) = m"
| "mapOf _ = []"

fun listOf :: "val \<Rightarrow> string list" where
  "listOf (VList xs) = xs"
| "listOf _ = []"

fun objsOf :: "val \<Rightarrow> (string \<times> val) list list" where
  "objsOf (VObjs ts) = ts"
| "objsOf _ = []"

text \<open>
  \<open>attrs\<close> holds the attributes that are present (from the configuration, or written by
  \<open>d.Set\<close>); \<open>prior\<close> holds the last-known state that \<open>d.HasChange\<close> compares with.
\<close>

record ResourceData =
  Id :: string
  attrs :: "string \<rightharpoonup> val"
  prior :: "string \<rightharpoonup> val"

definition SetId :: "string \<Rightarrow> ResourceData \<Rightarrow> ResourceData" where
  "SetId v d = d\<lparr>Id := v\<rparr>"

text \<open>
  The schema of a resource gives every attribute its type: one of the value types of the
  SDK, and for a list or a map its element (\<open>Elem\<close>), which is a schema of a primitive
  type or a nested resource with fields of its own (of primitive types, in this
  provider).
\<close>

datatype ValueType = TypeBool | TypeInt | TypeFloat | TypeString | TypeList | TypeMap

datatype Elem = ElemSchema ValueType | ElemResource "(string \<times> ValueType) list"

record Schema =
  Schema_Type :: ValueType
  Schema_Elem :: "Elem option"

text \<open>
  \<open>d.Set(k, v)\<close> converts \<open>v\<close> to the type that the schema gives the attribute \<open>k\<close> and
  stores the result. The conversion is the strict one of the SDK's field writer: a
  number is accepted by a numeric attribute (a float handed to an integer attribute is
  truncated), a bool only by a bool attribute, a string only by a string attribute, a map
  only by a map attribute, and a list by a list attribute when each of its elements is
  accepted by the element of the schema. When \<open>k\<close> is no attribute of the schema, or
  the conversion fails, \<open>d.Set\<close> returns an error and writes nothing. The code never
  looks at the error of \<open>d.Set\<close>, so the attribute then stays as it was.
\<close>

fun setPrimitive :: "ValueType \<Rightarrow> val \<Rightarrow> val option" where
  "setPrimitive TypeBool (VBool b) = Some (VBool b)"
| "setPrimitive TypeString (VString s) = Some (VString s)"
| "setPrimitive TypeInt (VInt n) = Some (VInt n)"
| "setPrimitive TypeInt (VFloat x) = Some (VInt (if x < 0 then \<lceil>x\<rceil> else \<lfloor>x\<rfloor>))"
| "setPrimitive TypeFloat (VFloat x) = Some (VFloat x)"
| "setPrimitive TypeFloat (VInt n) = Some (VFloat (of_int n))"
| "setPrimitive _ _ = None"

text \<open>An element of a list of nested resources: every field it holds is a field of the
  nested resource and is converted to the type of that field.\<close>

fun setObject :: "(string \<times> ValueType) list \<Rightarrow> (string \<times> val) list
    \<Rightarrow> (string \<times> val) list option" where
  "setObject resource [] = Some []"
| "setObject resource ((k, v) # kvs) =
     (case map_of resource k of
        None \<Rightarrow> None
      | Some t \<Rightarrow>
          (case setPrimitive t v of
             None \<Rightarrow> None
           | Some v' \<Rightarrow> map_option (\<lambda>rest. (k, v') # rest) (setObject resource kvs)))"

definition setList :: "Elem option \<Rightarrow> val \<Rightarrow> val option" where
  "setList elem v =
     (case v of
        VList xs \<Rightarrow>
          if xs = [] then Some (VList [])
          else if elem = Some (ElemSchema TypeString) then Some (VList xs)
          else None
      | VObjs ts \<Rightarrow>
          (case elem of
             Some (ElemResource resource) \<Rightarrow>
               map_option VObjs (those (map (setObject resource) ts))
           | _ \<Rightarrow> if ts = [] then Some (VObjs []) else None)
      | _ \<Rightarrow> None)"

text \<open>The values of a map are strings; a map without an element has string values.\<close>

definition setMap :: "Elem option \<Rightarrow> val \<Rightarrow> val option" where
  "setMap elem v =
     (case v of
        VMap m \<Rightarrow>
          if m = [] then Some (VMap [])
          else if elem = None then Some (VMap m)
          else if elem = Some (ElemSchema TypeString) then Some (VMap m)
          else None
      | _ \<Rightarrow> None)"

definition WriteField :: "Schema \<Rightarrow> val \<Rightarrow> val option" where
  "WriteField s v =
     (case Schema_Type s of
        TypeList \<Rightarrow> setList (Schema_Elem s) v
      | TypeMap \<Rightarrow> setMap (Schema_Elem s) v
      | _ \<Rightarrow> setPrimitive (Schema_Type s) v)"

text \<open>
  The resource data a function of a resource receives is built from the schema of that
  resource; \<open>Set\<close> takes that schema as its first argument. \<open>SetAll\<close> is a run of
  \<open>d.Set(k, v)\<close> statements, in the order of the source.
\<close>

definition Set ::
    "(string \<times> Schema) list \<Rightarrow> string \<Rightarrow> val \<Rightarrow> ResourceData \<Rightarrow> ResourceData" where
  "Set schema k v d =
     (case map_of schema k of
        None \<Rightarrow> d
      | Some s \<Rightarrow>
          (case WriteField s v of
             None \<Rightarrow> d
           | Some v' \<Rightarrow> d\<lparr>attrs := (attrs d)(k \<mapsto> v')\<rparr>))"

fun SetAll ::
    "(string \<times> Schema) list \<Rightarrow> (string \<times> val) list \<Rightarrow> ResourceData \<Rightarrow> ResourceData" where
  "SetAll schema [] d = d"
| "SetAll schema ((k, v) # kvs) d = SetAll schema kvs (Set schema k v d)"

text \<open>
  \<open>v, ok := d.GetOk(k)\<close> is \<open>Some v\<close> when \<open>ok\<close>, that is when the attribute is present
  and is not the zero value of its type; \<open>d.GetOkExists(k)\<close> is \<open>Some v\<close> when the
  attribute is present, a zero value included. The source never uses \<open>v\<close> when \<open>ok\<close> is
  false.
\<close>

definition nonZero :: "val option \<Rightarrow> val option" where
  "nonZero r = (case r of None \<Rightarrow> None | Some v \<Rightarrow> if isZero v then None else Some v)"

definition GetOk :: "ResourceData \<Rightarrow> string \<Rightarrow> val option" where
  "GetOk d k = nonZero (attrs d k)"

definition GetOkExists :: "ResourceData \<Rightarrow> string \<Rightarrow> val option" where
  "GetOkExists d k = attrs d k"

text \<open>\<open>d.Get(k).(string)\<close> and its like: the value, or the zero value when absent.\<close>

definition GetString :: "ResourceData \<Rightarrow> string \<Rightarrow> string" where
  "GetString d k = (case attrs d k of Some v \<Rightarrow> stringOf v | None \<Rightarrow> [])"

definition GetInt :: "ResourceData \<Rightarrow> string \<Rightarrow> int" where
  "GetInt d k = (case attrs d k of Some v \<Rightarrow> intOf v | None \<Rightarrow> 0)"

definition GetFloat :: "ResourceData \<Rightarrow> string \<Rightarrow> real" where
  "GetFloat d k = (case attrs d k of Some v \<Rightarrow> floatOf v | None \<Rightarrow> 0)"

definition GetBool :: "ResourceData \<Rightarrow> string \<Rightarrow> bool" where
  "GetBool d k = (case attrs d k of Some v \<Rightarrow> boolOf v | None \<Rightarrow> False)"

text \<open>
  \<open>d.HasChange(k)\<close>: the old and the new value of \<open>k\<close> differ, an absent attribute
  counting as the zero value. A key that is no attribute of the resource has neither
  an old nor a new value, so it never has a change.
\<close>

definition HasChange :: "ResourceData \<Rightarrow> string \<Rightarrow> bool" where
  "HasChange d k = (nonZero (prior d k) \<noteq> nonZero (attrs d k))"

text \<open>
  The address \<open>tier.<idx>.<field>\<close> (built by \<open>fmt.Sprintf("tier.%d.up_to", idx)\<close>):
  the field of the \<open>idx\<close>-th element of the list attribute \<open>tier\<close>.
\<close>

definition tierAttr :: "ResourceData \<Rightarrow> nat \<Rightarrow> string \<Rightarrow> val option" where
  "tierAttr d idx f =
     (case attrs d ''tier'' of
        Some v \<Rightarrow> if idx < length (objsOf v) then map_of (objsOf v ! idx) f else None
      | None \<Rightarrow> None)"

definition GetOkTier :: "ResourceData \<Rightarrow> nat \<Rightarrow> string \<Rightarrow> val option" where
  "GetOkTier d idx f = nonZero (tierAttr d idx f)"

definition GetOkExistsTier :: "ResourceData \<Rightarrow> nat \<Rightarrow> string \<Rightarrow> val option" where
  "GetOkExistsTier d idx f = tierAttr d idx f"

section \<open>Diagnostics and the environment\<close>

text \<open>
  \<open>diag.Errorf\<close> carries the formatted message of a local validation error,
  \<open>diag.FromErr\<close> the error of the remote client. \<open>diags.HasError()\<close> holds as soon as
  one of them is present, since the code creates no warnings.
\<close>

datatype diagnostic = Errorf string | FromErr string

type_synonym Diagnostics = "diagnostic list"

definition HasError :: "Diagnostics \<Rightarrow> bool" where
  "HasError diags = (diags \<noteq> [])"

text \<open>
  Library functions the code calls are parameters: \<open>strconv.ParseInt(s, 10, 64)\<close>,
  \<open>time.Parse(time.RFC3339, s)\<close> followed by \<open>.Unix()\<close> (\<open>None\<close> is the parse error), and
  the order in which \<open>getMapKeys\<close> lists the keys of \<open>validDurations\<close> (Go fixes no
  order for the keys of a map).
\<close>

record env =
  ParseInt :: "string \<Rightarrow> int option"
  ParseRFC3339 :: "string \<Rightarrow> int option"
  getMapKeys :: "(string \<times> bool) list \<Rightarrow> string list"

fun Join :: "string list \<Rightarrow> string \<Rightarrow> string" where
  "Join [] sep = []"
| "Join [x] sep = x"
| "Join (x # xs) sep = x @ sep @ Join xs sep"

text \<open>
  Modelled from the spec: \<open>expandMetadata\<close> is one of the "generic mapping helpers
  (string maps, string lists)" whose source file is absent; it turns the \<open>metadata\<close>
  attribute into the request's string map.
\<close>

definition expandMetadata :: "ResourceData \<Rightarrow> (string \<times> string) list" where
  "expandMetadata d = (case attrs d ''metadata'' of Some v \<Rightarrow> mapOf v | None \<Rightarrow> [])"

text \<open>
  Modelled from the spec: \<open>expandStringList\<close>, the other absent mapping helper, turns a
  list attribute into the request's string list.
\<close>

definition expandStringList :: "ResourceData \<Rightarrow> string \<Rightarrow> string list" where
  "expandStringList d k = (case attrs d k of Some v \<Rightarrow> listOf v | None \<Rightarrow> [])"

section \<open>Coupons\<close>

text \<open>The \<open>stripe.Coupon\<close> the client returns and the \<open>stripe.CouponParams\<close> it is sent
  (a nil pointer is \<open>None\<close>); the fields the resource uses.\<close>

record Coupon =
  Coupon_ID :: string
  Coupon_AmountOff :: int
  Coupon_Created :: int
  Coupon_Currency :: string
  Coupon_Duration :: string
  Coupon_DurationInMonths :: int
  Coupon_Livemode :: bool
  Coupon_MaxRedemptions :: int
  Coupon_Metadata :: "(string \<times> string) list"
  Coupon_Name :: string
  Coupon_PercentOff :: real
  Coupon_RedeemBy :: int
  Coupon_TimesRedeemed :: int
  Coupon_Valid :: bool

record CouponParams =
  CouponParams_ID :: "string option"
  CouponParams_AmountOff :: "int option"
  CouponParams_Currency :: "string option"
  CouponParams_Duration :: "string option"
  CouponParams_DurationInMonths :: "int option"
  CouponParams_MaxRedemptions :: "int option"
  CouponParams_Metadata :: "(string \<times> string) list option"
  CouponParams_Name :: "string option"
  CouponParams_PercentOff :: "real option"
  CouponParams_RedeemBy :: "int option"

definition emptyCouponParams :: CouponParams where
  "emptyCouponParams =
     \<lparr>CouponParams_ID = None, CouponParams_AmountOff = None, CouponParams_Currency = None,
      CouponParams_Duration = None, CouponParams_DurationInMonths = None,
      CouponParams_MaxRedemptions = None, CouponParams_Metadata = None,
      CouponParams_Name = None, CouponParams_PercentOff = None,
      CouponParams_RedeemBy = None\<rparr>"

section \<open>Prices\<close>

record PriceTier =
  PriceTier_FlatAmount :: int
  PriceTier_FlatAmountDecimal :: real
  PriceTier_UnitAmount :: int
  PriceTier_UnitAmountDecimal :: real
  PriceTier_UpTo :: int

record PriceTierParams =
  PriceTierParams_FlatAmount :: "int option"
  PriceTierParams_FlatAmountDecimal :: "real option"
  PriceTierParams_UnitAmount :: "int option"
  PriceTierParams_UnitAmountDecimal :: "real option"
  PriceTierParams_UpTo :: "int option"
  PriceTierParams_UpToInf :: "bool option"

definition emptyPriceTierParams :: PriceTierParams where
  "emptyPriceTierParams =
     \<lparr>PriceTierParams_FlatAmount = None, PriceTierParams_FlatAmountDecimal = None,
      PriceTierParams_UnitAmount = None, PriceTierParams_UnitAmountDecimal = None,
      PriceTierParams_UpTo = None, PriceTierParams_UpToInf = None\<rparr>"

record PriceRecurring =
  PriceRecurring_AggregateUsage :: string
  PriceRecurring_Interval :: string
  PriceRecurring_IntervalCount :: int
  PriceRecurring_UsageType :: string

record PriceRecurringParams =
  PriceRecurringParams_AggregateUsage :: "string option"
  PriceRecurringParams_Interval :: "string option"
  PriceRecurringParams_IntervalCount :: "int option"
  PriceRecurringParams_UsageType :: "string option"

definition emptyPriceRecurringParams :: PriceRecurringParams where
  "emptyPriceRecurringParams =
     \<lparr>PriceRecurringParams_AggregateUsage = None, PriceRecurringParams_Interval = None,
      PriceRecurringParams_IntervalCount = None, PriceRecurringParams_UsageType = None\<rparr>"

text \<open>\<open>Price_Product\<close> is the pointer \<open>price.Product\<close>; of the product only its \<open>ID\<close> is read.\<close>

record Price =
  Price_ID :: string
  Price_Active :: bool
  Price_BillingScheme :: string
  Price_Created :: int
  Price_Currency :: string
  Price_Livemode :: bool
  Price_Metadata :: "(string \<times> string) list"
  Price_Nickname :: string
  Price_Product :: "string option"
  Price_Recurring :: "PriceRecurring option"
  Price_TaxBehavior :: string
  Price_Tiers :: "PriceTier list"
  Price_TiersMode :: string
  Price_UnitAmount :: int
  Price_UnitAmountDecimal :: real

text \<open>An entry of \<open>PriceParams_Tiers\<close> is a \<open>*stripe.PriceTierParams\<close>, \<open>None\<close> the nil pointer.\<close>

record PriceParams =
  PriceParams_Active :: "bool option"
  PriceParams_BillingScheme :: "string option"
  PriceParams_Currency :: "string option"
  PriceParams_Metadata :: "(string \<times> string) list option"
  PriceParams_Nickname :: "string option"
  PriceParams_Product :: "string option"
  PriceParams_Recurring :: "PriceRecurringParams option"
  PriceParams_TaxBehavior :: "string option"
  PriceParams_Tiers :: "PriceTierParams option list"
  PriceParams_TiersMode :: "string option"
  PriceParams_UnitAmount :: "int option"
  PriceParams_UnitAmountDecimal :: "real option"

definition emptyPriceParams :: PriceParams where
  "emptyPriceParams =
     \<lparr>PriceParams_Active = None, PriceParams_BillingScheme = None,
      PriceParams_Currency = None, PriceParams_Metadata = None,
      PriceParams_Nickname = None, PriceParams_Product = None,
      PriceParams_Recurring = None, PriceParams_TaxBehavior = None,
      PriceParams_Tiers = [], PriceParams_TiersMode = None,
      PriceParams_UnitAmount = None, PriceParams_UnitAmountDecimal = None\<rparr>"

section \<open>Plans\<close>

record PlanTierParams =
  PlanTierParams_FlatAmount :: "int option"
  PlanTierParams_FlatAmountDecimal :: "real option"
  PlanTierParams_UnitAmount :: "int option"
  PlanTierParams_UnitAmountDecimal :: "real option"
  PlanTierParams_UpTo :: "int option"
  PlanTierParams_UpToInf :: "bool option"

definition emptyPlanTierParams :: PlanTierParams where
  "emptyPlanTierParams =
     \<lparr>PlanTierParams_FlatAmount = None, PlanTierParams_FlatAmountDecimal = None,
      PlanTierParams_UnitAmount = None, PlanTierParams_UnitAmountDecimal = None,
      PlanTierParams_UpTo = None, PlanTierParams_UpToInf = None\<rparr>"

record PlanTransformUsageParams =
  PlanTransformUsageParams_DivideBy :: "int option"
  PlanTransformUsageParams_Round :: "string option"

text \<open>Of the \<open>stripe.Plan\<close> returned, the code that is modelled reads \<open>ID\<close> and \<open>Nickname\<close>.\<close>

record Plan =
  Plan_ID :: string
  Plan_Nickname :: string

record PlanParams =
  PlanParams_Active :: "bool option"
  PlanParams_AggregateUsage :: "string option"
  PlanParams_Amount :: "int option"
  PlanParams_AmountDecimal :: "real option"
  PlanParams_BillingScheme :: "string option"
  PlanParams_Currency :: "string option"
  PlanParams_ID :: "string option"
  PlanParams_Interval :: "string option"
  PlanParams_IntervalCount :: "int option"
  PlanParams_Metadata :: "(string \<times> string) list option"
  PlanParams_Nickname :: "string option"
  PlanParams_ProductID :: "string option"
  PlanParams_Tiers :: "PlanTierParams option list"
  PlanParams_TiersMode :: "string option"
  PlanParams_TransformUsage :: "PlanTransformUsageParams option"
  PlanParams_TrialPeriodDays :: "int option"
  PlanParams_UsageType :: "string option"

definition emptyPlanParams :: PlanParams where
  "emptyPlanParams =
     \<lparr>PlanParams_Active = None, PlanParams_AggregateUsage = None,
      PlanParams_Amount = None, PlanParams_AmountDecimal = None,
      PlanParams_BillingScheme = None, PlanParams_Currency = None,
      PlanParams_ID = None, PlanParams_Interval = None,
      PlanParams_IntervalCount = None, PlanParams_Metadata = None,
      PlanParams_Nickname = None, PlanParams_ProductID = None,
      PlanParams_Tiers = [], PlanParams_TiersMode = None,
      PlanParams_TransformUsage = None, PlanParams_TrialPeriodDays = None,
      PlanParams_UsageType = None\<rparr>"

section \<open>Products and tax rates\<close>

record Product =
  Product_ID :: string
  Product_Active :: bool
  Product_Attributes :: "string list"
  Product_Metadata :: "(string \<times> string) list"
  Product_Name :: string
  Product_StatementDescriptor :: string
  Product_Type :: string
  Product_UnitLabel :: string

record ProductParams =
  ProductParams_Active :: "bool option"
  ProductParams_Attributes :: "string list option"
  ProductParams_ID :: "string option"
  ProductParams_Metadata :: "(string \<times> string) list option"
  ProductParams_Name :: "string option"
  ProductParams_StatementDescriptor :: "string option"
  ProductParams_Type :: "string option"
  ProductParams_UnitLabel :: "string option"

definition emptyProductParams :: ProductParams where
  "emptyProductParams =
     \<lparr>ProductParams_Active = None, ProductParams_Attributes = None,
      ProductParams_ID = None, ProductParams_Metadata = None,
      ProductParams_Name = None, ProductParams_StatementDescriptor = None,
      ProductParams_Type = None, ProductParams_UnitLabel = None\<rparr>"

record TaxRate =
  TaxRate_ID :: string
  TaxRate_Active :: bool
  TaxRate_Created :: int
  TaxRate_Description :: string
  TaxRate_DisplayName :: string
  TaxRate_Inclusive :: bool
  TaxRate_Jurisdiction :: string
  TaxRate_Livemode :: bool
  TaxRate_Metadata :: "(string \<times> string) list"
  TaxRate_Percentage :: real

record TaxRateParams =
  TaxRateParams_Active :: "bool option"
  TaxRateParams_Description :: "string option"
  TaxRateParams_DisplayName :: "string option"
  TaxRateParams_Inclusive :: "bool option"
  TaxRateParams_Jurisdiction :: "string option"
  TaxRateParams_Metadata :: "(string \<times> string) list option"
  TaxRateParams_Percentage :: "real option"

definition emptyTaxRateParams :: TaxRateParams where
  "emptyTaxRateParams =
     \<lparr>TaxRateParams_Active = None, TaxRateParams_Description = None,
      TaxRateParams_DisplayName = None, TaxRateParams_Inclusive = None,
      TaxRateParams_Jurisdiction = None, TaxRateParams_Metadata = None,
      TaxRateParams_Percentage = None\<rparr>"

section \<open>The remote client\<close>

text \<open>
  The Stripe client is outside the repository. Each of its operations is a parameter
  that answers with the entity or with an error (\<open>Inl\<close>); every call an operation of a
  resource makes is recorded, in order, in the list of calls the operation returns.
  The request context and the \<open>tiers\<close> expansion asked of \<open>Get\<close> are left out of the
  recorded call.
\<close>

datatype call =
    CouponsNew CouponParams
  | CouponsGet string
  | CouponsUpdate string CouponParams
  | CouponsDel string
  | PricesNew PriceParams
  | PricesGet string
  | PricesUpdate string PriceParams
  | PlansNew PlanParams
  | PlansDel string
  | ProductsNew ProductParams
  | ProductsGet string
  | TaxRatesGet string
  | TaxRatesUpdate string TaxRateParams

record client =
  Coupons_New :: "CouponParams \<Rightarrow> string + Coupon"
  Coupons_Get :: "string \<Rightarrow> string + Coupon"
  Coupons_Update :: "string \<Rightarrow> CouponParams \<Rightarrow> string + Coupon"
  Coupons_Del :: "string \<Rightarrow> string + Coupon"
  Prices_New :: "PriceParams \<Rightarrow> string + Price"
  Prices_Get :: "string \<Rightarrow> string + Price"
  Prices_Update :: "string \<Rightarrow> PriceParams \<Rightarrow> string + Price"
  Plans_New :: "PlanParams \<Rightarrow> string + Plan"
  Plans_Del :: "string \<Rightarrow> string + Plan"
  Products_New :: "ProductParams \<Rightarrow> string + Product"
  Products_Get :: "string \<Rightarrow> string + Product"
  TaxRates_Get :: "string \<Rightarrow> string + TaxRate"
  TaxRates_Update :: "string \<Rightarrow> TaxRateParams \<Rightarrow> string + TaxRate"

text \<open>
  What an operation of a resource leaves behind: the diagnostics it returns (\<open>[]\<close> is
  \<open>nil\<close>), the resource data as it has mutated it, and the remote calls it has made.
\<close>

type_synonym result = "Diagnostics \<times> ResourceData \<times> call list"

section \<open>Conditional statements on a request\<close>

text \<open>
  The request of an operation is built by a run of statements of two shapes.
  \<open>if v, ok := d.GetOk(k); ok { body }\<close> is \<open>ifOk (GetOk d k) (\<lambda>v params. body)\<close>: the body
  runs on the request when \<open>ok\<close>, and the request stays as it is otherwise.
  \<open>if cond { body }\<close> is \<open>ifTrue cond (\<lambda>params. body)\<close>.
\<close>

definition ifOk :: "'a option \<Rightarrow> ('a \<Rightarrow> 'p \<Rightarrow> 'p) \<Rightarrow> 'p \<Rightarrow> 'p" where
  "ifOk r body params = (case r of Some v \<Rightarrow> body v params | None \<Rightarrow> params)"

definition ifTrue :: "bool \<Rightarrow> ('p \<Rightarrow> 'p) \<Rightarrow> 'p \<Rightarrow> 'p" where
  "ifTrue cond body params = (if cond then body params else params)"

section \<open>The coupon resource\<close>

text \<open>The schema of \<open>resourceStripeCoupon\<close>: the type of each attribute.\<close>

definition resourceStripeCoupon :: "(string \<times> Schema) list" where
  "resourceStripeCoupon =
     [(''code'', \<lparr>Schema_Type = TypeString, Schema_Elem = None\<rparr>),
      (''amount_off'', \<lparr>Schema_Type = TypeInt, Schema_Elem = None\<rparr>),
      (''currency'', \<lparr>Schema_Type = TypeString, Schema_Elem = None\<rparr>),
      (''duration'', \<lparr>Schema_Type = TypeString, Schema_Elem = None\<rparr>),
      (''duration_in_months'', \<lparr>Schema_Type = TypeInt, Schema_Elem = None\<rparr>),
      (''max_redemptions'', \<lparr>Schema_Type = TypeInt, Schema_Elem = None\<rparr>),
      (''metadata'', \<lparr>Schema_Type = TypeMap, Schema_Elem = Some (ElemSchema TypeString)\<rparr>),
      (''name'', \<lparr>Schema_Type = TypeString, Schema_Elem = None\<rparr>),
      (''percent_off'', \<lparr>Schema_Type = TypeFloat, Schema_Elem = None\<rparr>),
      (''redeem_by'', \<lparr>Schema_Type = TypeString, Schema_Elem = None\<rparr>),
      (''valid'', \<lparr>Schema_Type = TypeBool, Schema_Elem = None\<rparr>),
      (''created'', \<lparr>Schema_Type = TypeInt, Schema_Elem = None\<rparr>),
      (''livemode'', \<lparr>Schema_Type = TypeBool, Schema_Elem = None\<rparr>),
      (''times_redeemed'', \<lparr>Schema_Type = TypeInt, Schema_Elem = None\<rparr>)]"

definition validDurations :: "(string \<times> bool) list" where
  "validDurations = [(''repeating'', True), (''once'', True), (''forever'', True)]"

text \<open>Indexing a Go \<open>map[string]bool\<close>: a missing key reads as \<open>false\<close>.\<close>

definition index :: "(string \<times> bool) list \<Rightarrow> string \<Rightarrow> bool" where
  "index m k = (case map_of m k of Some b \<Rightarrow> b | None \<Rightarrow> False)"

definition quote :: string where
  "quote = [CHR 0x22]"

text \<open>
  The part of \<open>resourceStripeCouponCreate\<close> before the remote call: the request it
  builds, or the diagnostics of an early return.
\<close>

definition couponCreateParams :: "env \<Rightarrow> ResourceData \<Rightarrow> Diagnostics + CouponParams" where
  "couponCreateParams e d =
     (let couponID = GetString d ''code'';
          params = emptyCouponParams\<lparr>CouponParams_ID := Some couponID\<rparr>;
          couponDuration = GetString d ''duration''
      in
      if \<not> index validDurations couponDuration then
        (let formattedKeys = ''( '' @ Join (getMapKeys e validDurations) '' | '' @ '' )''
         in Inl [Errorf (quote @ couponDuration @ quote @ '' is not a valid value for ''
                   @ quote @ ''duration'' @ quote @ '', expected one of '' @ formattedKeys)])
      else
      let params = ifOk (GetOk d ''name'')
                     (\<lambda>name params. params\<lparr>CouponParams_Name := Some (stringOf name)\<rparr>) params
      in
      if GetOk d ''duration_in_months'' \<noteq> None \<and> couponDuration \<noteq> ''repeating'' then
        Inl [Errorf ''can't set duration in months if event is not repeating'']
      else
      let params = ifOk (GetOk d ''duration_in_months'')
                     (\<lambda>durationInMonths params.
                        params\<lparr>CouponParams_DurationInMonths := Some (intOf durationInMonths)\<rparr>)
                     params;
          params = ifTrue (couponDuration \<noteq> [])
                     (\<lambda>params. params\<lparr>CouponParams_Duration := Some couponDuration\<rparr>) params;
          params = ifOk (GetOk d ''percent_off'')
                     (\<lambda>percentOff params.
                        params\<lparr>CouponParams_PercentOff := Some (floatOf percentOff)\<rparr>) params;
          params = ifOk (GetOk d ''amount_off'')
                     (\<lambda>amountOff params.
                        params\<lparr>CouponParams_AmountOff := Some (intOf amountOff)\<rparr>) params;
          params = ifOk (GetOk d ''max_redemptions'')
                     (\<lambda>maxRedemptions params.
                        params\<lparr>CouponParams_MaxRedemptions := Some (intOf maxRedemptions)\<rparr>)
                     params
      in
      if GetOk d ''currency'' \<noteq> None \<and> CouponParams_AmountOff params = None then
        Inl [Errorf ''can only set currency when using amount_off'']
      else
      let params = ifOk (GetOk d ''currency'')
                     (\<lambda>currency params.
                        params\<lparr>CouponParams_Currency := Some (stringOf currency)\<rparr>) params
      in
      case GetOk d ''redeem_by'' of
        None \<Rightarrow> Inr (params\<lparr>CouponParams_Metadata := Some (expandMetadata d)\<rparr>)
      | Some redeemByStr \<Rightarrow>
          (case ParseRFC3339 e (stringOf redeemByStr) of
             None \<Rightarrow>
               Inl [Errorf (''can't convert time '' @ quote @ stringOf redeemByStr @ quote
                      @ '' to time.  Please check if it's RFC3339-compliant'')]
           | Some unix \<Rightarrow>
               Inr (params\<lparr>CouponParams_RedeemBy := Some unix,
                            CouponParams_Metadata := Some (expandMetadata d)\<rparr>)))"

definition resourceStripeCouponCreate :: "env \<Rightarrow> client \<Rightarrow> ResourceData \<Rightarrow> result" where
  "resourceStripeCouponCreate e cl d =
     (case couponCreateParams e d of
        Inl diags \<Rightarrow> (diags, d, [])
      | Inr params \<Rightarrow>
          (case Coupons_New cl params of
             Inl err \<Rightarrow> ([FromErr err], d, [CouponsNew params])
           | Inr coupon \<Rightarrow>
               ([],
                SetAll resourceStripeCoupon
                  [(''valid'', VBool (Coupon_Valid coupon)),
                   (''created'', VInt (Coupon_Created coupon)),
                   (''times_redeemed'', VInt (Coupon_TimesRedeemed coupon)),
                   (''livemode'', VBool (Coupon_Livemode coupon))]
                  (SetId (Coupon_ID coupon) d),
                [CouponsNew params])))"

definition resourceStripeCouponRead :: "client \<Rightarrow> ResourceData \<Rightarrow> result" where
  "resourceStripeCouponRead cl d =
     (case Coupons_Get cl (Id d) of
        Inl err \<Rightarrow> ([FromErr err], d, [CouponsGet (Id d)])
      | Inr coupon \<Rightarrow>
          ([],
           SetAll resourceStripeCoupon
             [(''code'', VString (Id d)),
              (''amount_off'', VInt (Coupon_AmountOff coupon)),
              (''currency'', VString (Coupon_Currency coupon)),
              (''duration'', VString (Coupon_Duration coupon)),
              (''duration_in_months'', VInt (Coupon_DurationInMonths coupon)),
              (''livemode'', VBool (Coupon_Livemode coupon)),
              (''max_redemptions'', VInt (Coupon_MaxRedemptions coupon)),
              (''metadata'', VMap (Coupon_Metadata coupon)),
              (''name'', VString (Coupon_Name coupon)),
              (''percent_off'', VFloat (Coupon_PercentOff coupon)),
              (''redeem_by'', VInt (Coupon_RedeemBy coupon)),
              (''times_redeemed'', VInt (Coupon_TimesRedeemed coupon)),
              (''valid'', VBool (Coupon_Valid coupon)),
              (''created'', VBool (Coupon_Valid coupon))] d,
           [CouponsGet (Id d)]))"

text \<open>The request \<open>resourceStripeCouponUpdate\<close> builds before it calls the client.\<close>

definition couponUpdateParams :: "ResourceData \<Rightarrow> CouponParams" where
  "couponUpdateParams d =
     (let params = emptyCouponParams;
          params = ifTrue (HasChange d ''metadata'')
                     (\<lambda>params. params\<lparr>CouponParams_Metadata := Some (expandMetadata d)\<rparr>) params;
          params = ifTrue (HasChange d ''name'')
                     (\<lambda>params. params\<lparr>CouponParams_Name := Some (GetString d ''name'')\<rparr>) params
      in params)"

definition resourceStripeCouponUpdate :: "client \<Rightarrow> ResourceData \<Rightarrow> result" where
  "resourceStripeCouponUpdate cl d =
     (let params = couponUpdateParams d in
      case Coupons_Update cl (Id d) params of
        Inl err \<Rightarrow> ([FromErr err], d, [CouponsUpdate (Id d) params])
      | Inr _ \<Rightarrow>
          (case resourceStripeCouponRead cl d of
             (diags, d', calls) \<Rightarrow> (diags, d', CouponsUpdate (Id d) params # calls)))"

definition resourceStripeCouponDelete :: "client \<Rightarrow> ResourceData \<Rightarrow> result" where
  "resourceStripeCouponDelete cl d =
     (case Coupons_Del cl (Id d) of
        Inl err \<Rightarrow> ([FromErr err], d, [CouponsDel (Id d)])
      | Inr _ \<Rightarrow> ([], SetId [] d, [CouponsDel (Id d)]))"

section \<open>The price resource\<close>

text \<open>The schema of \<open>resourceStripePrice\<close>: the type of each attribute.\<close>

definition resourceStripePrice :: "(string \<times> Schema) list" where
  "resourceStripePrice =
     [(''price_id'', \<lparr>Schema_Type = TypeString, Schema_Elem = None\<rparr>),
      (''active'', \<lparr>Schema_Type = TypeBool, Schema_Elem = None\<rparr>),
      (''currency'', \<lparr>Schema_Type = TypeString, Schema_Elem = None\<rparr>),
      (''metadata'', \<lparr>Schema_Type = TypeMap, Schema_Elem = Some (ElemSchema TypeString)\<rparr>),
      (''nickname'', \<lparr>Schema_Type = TypeString, Schema_Elem = None\<rparr>),
      (''product'', \<lparr>Schema_Type = TypeString, Schema_Elem = None\<rparr>),
      (''recurring'', \<lparr>Schema_Type = TypeMap, Schema_Elem = Some (ElemSchema TypeString)\<rparr>),
      (''unit_amount'', \<lparr>Schema_Type = TypeInt, Schema_Elem = None\<rparr>),
      (''unit_amount_decimal'', \<lparr>Schema_Type = TypeFloat, Schema_Elem = None\<rparr>),
      (''billing_scheme'', \<lparr>Schema_Type = TypeString, Schema_Elem = None\<rparr>),
      (''created'', \<lparr>Schema_Type = TypeInt, Schema_Elem = None\<rparr>),
      (''livemode'', \<lparr>Schema_Type = TypeBool, Schema_Elem = None\<rparr>),
      (''tier'',
       \<lparr>Schema_Type = TypeList,
        Schema_Elem = Some (ElemResource
          [(''up_to'', TypeInt), (''up_to_inf'', TypeBool), (''flat_amount'', TypeInt),
           (''flat_amount_decimal'', TypeFloat), (''unit_amount'', TypeInt),
           (''unit_amount_decimal'', TypeFloat)])\<rparr>),
      (''tiers_mode'', \<lparr>Schema_Type = TypeString, Schema_Elem = None\<rparr>),
      (''tax_behavior'', \<lparr>Schema_Type = TypeString, Schema_Elem = None\<rparr>)]"

text \<open>
  Modelled from the spec: \<open>expandStringMap\<close>, a mapping helper whose source file is
  absent, turns the attribute's map into a Go \<open>map[string]string\<close>; \<open>parsed[k]\<close> with its
  \<open>ok\<close> is the lookup.
\<close>

definition expandStringMap :: "val \<Rightarrow> (string \<rightharpoonup> string)" where
  "expandStringMap v = map_of (mapOf v)"

definition expandPriceRecurring ::
    "env \<Rightarrow> val \<Rightarrow> PriceRecurringParams option \<times> Diagnostics" where
  "expandPriceRecurring e recurring =
     (let params = emptyPriceRecurringParams;
          parsed = expandStringMap recurring;
          params = ifOk (parsed ''aggregate_usage'')
                     (\<lambda>aggregateUsage params.
                        params\<lparr>PriceRecurringParams_AggregateUsage := Some aggregateUsage\<rparr>)
                     params;
          params = ifOk (parsed ''interval'')
                     (\<lambda>interval params.
                        params\<lparr>PriceRecurringParams_Interval := Some interval\<rparr>) params
      in
      case (case parsed ''interval_count'' of
              Some intervalCount \<Rightarrow>
                (case ParseInt e intervalCount of
                   None \<Rightarrow> Inl ()
                 | Some intervalCountInt \<Rightarrow>
                     Inr (params\<lparr>PriceRecurringParams_IntervalCount := Some intervalCountInt\<rparr>))
            | None \<Rightarrow> Inr params) of
        Inl _ \<Rightarrow>
          (None, [Errorf (''interval_count must be a string, representing an int (e.g. ''
                    @ quote @ ''52'' @ quote @ '')'')])
      | Inr params \<Rightarrow>
          (let params = ifOk (parsed ''usage_type'')
                          (\<lambda>usageType params.
                             params\<lparr>PriceRecurringParams_UsageType := Some usageType\<rparr>) params
           in (Some params, [])))"

definition expandPriceTier :: "ResourceData \<Rightarrow> nat \<Rightarrow> PriceTierParams option \<times> Diagnostics" where
  "expandPriceTier d idx =
     (let params = emptyPriceTierParams;
          upTo = GetOkTier d idx ''up_to'';
          params = ifOk upTo
                     (\<lambda>upTo params. params\<lparr>PriceTierParams_UpTo := Some (intOf upTo)\<rparr>) params;
          upToInf = GetOkExistsTier d idx ''up_to_inf'';
          params = ifOk upToInf
                     (\<lambda>upToInf params. params\<lparr>PriceTierParams_UpToInf := Some (boolOf upToInf)\<rparr>)
                     params
      in
      if upTo \<noteq> None \<and> upToInf \<noteq> None then
        (None, [Errorf ''up_to: conflicts with up_to_inf''])
      else
      let params = (case GetOkExistsTier d idx ''flat_amount'' of
                      Some flatAmount \<Rightarrow>
                        params\<lparr>PriceTierParams_FlatAmount := Some (intOf flatAmount)\<rparr>
                    | None \<Rightarrow>
                        ifOk (GetOkExistsTier d idx ''flat_amount_decimal'')
                          (\<lambda>flatAmountDecimal params.
                             params\<lparr>PriceTierParams_FlatAmountDecimal :=
                                      Some (floatOf flatAmountDecimal)\<rparr>) params);
          params = (case GetOkExistsTier d idx ''unit_amount'' of
                      Some unitAmount \<Rightarrow>
                        params\<lparr>PriceTierParams_UnitAmount := Some (intOf unitAmount)\<rparr>
                    | None \<Rightarrow>
                        ifOk (GetOkExistsTier d idx ''unit_amount_decimal'')
                          (\<lambda>unitAmountDecimal params.
                             params\<lparr>PriceTierParams_UnitAmountDecimal :=
                                      Some (floatOf unitAmountDecimal)\<rparr>) params)
      in (Some params, []))"

text \<open>The loop \<open>for i := range in\<close> of \<open>expandPriceTiers\<close>, over the indices of the list.\<close>

fun expandPriceTiersLoop ::
    "ResourceData \<Rightarrow> nat list \<Rightarrow> PriceTierParams option list \<times> Diagnostics" where
  "expandPriceTiersLoop d [] = ([], [])"
| "expandPriceTiersLoop d (i # is) =
     (case expandPriceTier d i of
        (tier, tdgs) \<Rightarrow>
          (case expandPriceTiersLoop d is of
             (out, diags) \<Rightarrow> (tier # out, tdgs @ diags)))"

definition expandPriceTiers :: "ResourceData \<Rightarrow> PriceTierParams option list \<times> Diagnostics" where
  "expandPriceTiers d =
     (case GetOk d ''tier'' of
        None \<Rightarrow> ([], [])
      | Some v \<Rightarrow> expandPriceTiersLoop d [0 ..< length (objsOf v)])"

text \<open>
  The part of \<open>resourceStripePriceCreate\<close> before the remote call: the request it
  builds, or the diagnostics of an early return.
\<close>

definition priceCreateParams :: "env \<Rightarrow> ResourceData \<Rightarrow> Diagnostics + PriceParams" where
  "priceCreateParams e d =
     (let nickname = GetString d ''nickname'';
          currency = GetString d ''currency'';
          params = emptyPriceParams\<lparr>PriceParams_Currency := Some currency\<rparr>;
          params = ifOk (GetOk d ''active'')
                     (\<lambda>active params. params\<lparr>PriceParams_Active := Some (boolOf active)\<rparr>) params;
          params = params\<lparr>PriceParams_Metadata := Some (expandMetadata d)\<rparr>;
          params = ifOk (GetOk d ''nickname'')
                     (\<lambda>_ params. params\<lparr>PriceParams_Nickname := Some nickname\<rparr>) params;
          params = ifOk (GetOk d ''tiers_mode'')
                     (\<lambda>tiersMode params.
                        params\<lparr>PriceParams_TiersMode := Some (stringOf tiersMode)\<rparr>) params
      in
      case expandPriceTiers d of
        (priceTiers, diags) \<Rightarrow>
      if HasError diags then Inl diags
      else
      let params = params\<lparr>PriceParams_Tiers := priceTiers\<rparr>;
          params = ifOk (GetOk d ''product'')
                     (\<lambda>product params. params\<lparr>PriceParams_Product := Some (stringOf product)\<rparr>)
                     params
      in
      case (case GetOk d ''recurring'' of
              Some recurring \<Rightarrow> expandPriceRecurring e recurring
            | None \<Rightarrow> (None, [])) of
        (recurringParams, diags) \<Rightarrow>
      if HasError diags then Inl diags
      else
      let params = ifOk (GetOk d ''recurring'')
                     (\<lambda>_ params. params\<lparr>PriceParams_Recurring := recurringParams\<rparr>) params;
          params = ifOk (GetOkExists d ''unit_amount'')
                     (\<lambda>unitAmount params.
                        params\<lparr>PriceParams_UnitAmount := Some (intOf unitAmount)\<rparr>) params;
          params = ifOk (GetOkExists d ''unit_amount_decimal'')
                     (\<lambda>unitAmountDecimal params.
                        params\<lparr>PriceParams_UnitAmountDecimal := Some (floatOf unitAmountDecimal)\<rparr>)
                     params;
          params = ifOk (GetOk d ''billing_scheme'')
                     (\<lambda>billingScheme params.
                        params\<lparr>PriceParams_BillingScheme := Some (stringOf billingScheme)\<rparr>)
                     params;
          params = ifOk (GetOk d ''tax_behavior'')
                     (\<lambda>taxBehavior params.
                        params\<lparr>PriceParams_TaxBehavior := Some (stringOf taxBehavior)\<rparr>) params
      in Inr params)"

definition flattenPriceTier :: "PriceTier \<Rightarrow> (string \<times> val) list" where
  "flattenPriceTier tier =
     [(''up_to'', VInt (PriceTier_UpTo tier)),
      (''up_to_inf'', VBool (PriceTier_UpTo tier = 0)),
      (''flat_amount'', VInt (PriceTier_FlatAmount tier)),
      (''flat_amount_decimal'', VFloat (PriceTier_FlatAmountDecimal tier)),
      (''unit_amount'', VInt (PriceTier_UnitAmount tier)),
      (''unit_amount_decimal'', VFloat (PriceTier_UnitAmountDecimal tier))]"

fun flattenPriceTiers :: "PriceTier list \<Rightarrow> (string \<times> val) list list" where
  "flattenPriceTiers [] = []"
| "flattenPriceTiers (tier # rest) = flattenPriceTier tier # flattenPriceTiers rest"

definition resourceStripePriceRead :: "client \<Rightarrow> ResourceData \<Rightarrow> result" where
  "resourceStripePriceRead cl d =
     (case Prices_Get cl (Id d) of
        Inl err \<Rightarrow> ([FromErr err], d, [PricesGet (Id d)])
      | Inr price \<Rightarrow>
          ([],
           SetAll resourceStripePrice
             ([(''price_id'', VString (Price_ID price)),
               (''active'', VBool (Price_Active price)),
               (''created'', VInt (Price_Created price)),
               (''currency'', VString (Price_Currency price)),
               (''livemode'', VBool (Price_Livemode price)),
               (''metadata'', VMap (Price_Metadata price)),
               (''nickname'', VString (Price_Nickname price))]
              @ (case Price_Product price of
                   Some productID \<Rightarrow> [(''product'', VString productID)]
                 | None \<Rightarrow> [])
              @ [(''recurring'', VBool (Price_Active price)),
                 (''unit_amount'', VInt (Price_UnitAmount price)),
                 (''unit_amount_decimal'', VFloat (Price_UnitAmountDecimal price)),
                 (''tiers_mode'', VString (Price_TiersMode price)),
                 (''tier'', VObjs (flattenPriceTiers (Price_Tiers price))),
                 (''billing_scheme'', VString (Price_BillingScheme price)),
                 (''tax_behavior'', VString (Price_TaxBehavior price))]) d,
           [PricesGet (Id d)]))"

definition resourceStripePriceCreate :: "env \<Rightarrow> client \<Rightarrow> ResourceData \<Rightarrow> result" where
  "resourceStripePriceCreate e cl d =
     (case priceCreateParams e d of
        Inl diags \<Rightarrow> (diags, d, [])
      | Inr params \<Rightarrow>
          (case Prices_New cl params of
             Inl err \<Rightarrow> ([FromErr err], d, [PricesNew params])
           | Inr price \<Rightarrow>
               (case resourceStripePriceRead cl (SetId (Price_ID price) d) of
                  (diags, d', calls) \<Rightarrow> (diags, d', PricesNew params # calls))))"

definition resourceStripePriceDelete :: "client \<Rightarrow> ResourceData \<Rightarrow> result" where
  "resourceStripePriceDelete cl d =
     (let params = emptyPriceParams\<lparr>PriceParams_Active := Some False\<rparr> in
      case Prices_Update cl (Id d) params of
        Inl err \<Rightarrow> ([FromErr err], d, [PricesUpdate (Id d) params])
      | Inr _ \<Rightarrow> ([], SetId [] d, [PricesUpdate (Id d) params]))"

section \<open>The plan resource\<close>

definition expandPlanTier :: "ResourceData \<Rightarrow> nat \<Rightarrow> PlanTierParams option \<times> Diagnostics" where
  "expandPlanTier d idx =
     (let params = emptyPlanTierParams;
          upTo = GetOkTier d idx ''up_to'';
          params = ifOk upTo
                     (\<lambda>upTo params. params\<lparr>PlanTierParams_UpTo := Some (intOf upTo)\<rparr>) params;
          upToInf = GetOkExistsTier d idx ''up_to_inf'';
          params = ifOk upToInf
                     (\<lambda>upToInf params. params\<lparr>PlanTierParams_UpToInf := Some (boolOf upToInf)\<rparr>)
                     params
      in
      if upTo \<noteq> None \<and> upToInf \<noteq> None then
        (None, [Errorf ''up_to: conflicts with up_to_inf''])
      else
      let params = (case GetOkTier d idx ''flat_amount'' of
                      Some flatAmount \<Rightarrow>
                        params\<lparr>PlanTierParams_FlatAmount := Some (intOf flatAmount)\<rparr>
                    | None \<Rightarrow>
                        ifOk (GetOkTier d idx ''flat_amount_decimal'')
                          (\<lambda>flatAmountDecimal params.
                             params\<lparr>PlanTierParams_FlatAmountDecimal :=
                                      Some (floatOf flatAmountDecimal)\<rparr>) params);
          params = (case GetOkTier d idx ''unit_amount'' of
                      Some unitAmount \<Rightarrow>
                        params\<lparr>PlanTierParams_UnitAmount := Some (intOf unitAmount)\<rparr>
                    | None \<Rightarrow>
                        ifOk (GetOkTier d idx ''unit_amount_decimal'')
                          (\<lambda>unitAmountDecimal params.
                             params\<lparr>PlanTierParams_UnitAmountDecimal :=
                                      Some (floatOf unitAmountDecimal)\<rparr>) params)
      in (Some params, []))"

fun expandPlanTiersLoop ::
    "ResourceData \<Rightarrow> nat list \<Rightarrow> PlanTierParams option list \<times> Diagnostics" where
  "expandPlanTiersLoop d [] = ([], [])"
| "expandPlanTiersLoop d (i # is) =
     (case expandPlanTier d i of
        (tier, tdgs) \<Rightarrow>
          (case expandPlanTiersLoop d is of
             (out, diags) \<Rightarrow> (tier # out, tdgs @ diags)))"

definition expandPlanTiers :: "ResourceData \<Rightarrow> PlanTierParams option list \<times> Diagnostics" where
  "expandPlanTiers d =
     (case GetOk d ''tier'' of
        None \<Rightarrow> ([], [])
      | Some v \<Rightarrow> expandPlanTiersLoop d [0 ..< length (objsOf v)])"

text \<open>
  \<open>transformUsage["divide_by"].(int)\<close> and \<open>transformUsage["round"].(string)\<close>: the schema
  requires both fields of the element, so the lookups find them.
\<close>

definition expandPlanTransformUsage ::
    "(string \<times> val) list list \<Rightarrow> PlanTransformUsageParams option" where
  "expandPlanTransformUsage in' =
     (case in' of
        [] \<Rightarrow> None
      | transformUsage # _ \<Rightarrow>
          Some \<lparr>PlanTransformUsageParams_DivideBy =
                  Some (case map_of transformUsage ''divide_by'' of
                          Some v \<Rightarrow> intOf v | None \<Rightarrow> 0),
                PlanTransformUsageParams_Round =
                  Some (case map_of transformUsage ''round'' of
                          Some v \<Rightarrow> stringOf v | None \<Rightarrow> [])\<rparr>)"

text \<open>
  The part of \<open>resourceStripePlanCreate\<close> before the remote call: the request it
  builds, or the diagnostics of an early return.
\<close>

definition planCreateParams :: "ResourceData \<Rightarrow> Diagnostics + PlanParams" where
  "planCreateParams d =
     (let planNickname = GetString d ''nickname'';
          planInterval = GetString d ''interval'';
          planCurrency = GetString d ''currency'';
          planProductID = GetString d ''product'';
          params = emptyPlanParams\<lparr>PlanParams_Interval := Some planInterval,
                                   PlanParams_ProductID := Some planProductID,
                                   PlanParams_Currency := Some planCurrency\<rparr>;
          amount = GetInt d ''amount'';
          amountDecimal = GetFloat d ''amount_decimal'';
          params = (if amountDecimal > 0 then
                      params\<lparr>PlanParams_AmountDecimal := Some amountDecimal\<rparr>
                    else params\<lparr>PlanParams_Amount := Some amount\<rparr>);
          params = ifOk (GetOk d ''plan_id'')
                     (\<lambda>id' params. params\<lparr>PlanParams_ID := Some (stringOf id')\<rparr>) params;
          params = ifOk (GetOk d ''active'')
                     (\<lambda>active params. params\<lparr>PlanParams_Active := Some (boolOf active)\<rparr>) params;
          params = ifOk (GetOk d ''aggregate_usage'')
                     (\<lambda>aggregateUsage params.
                        params\<lparr>PlanParams_AggregateUsage := Some (stringOf aggregateUsage)\<rparr>)
                     params;
          params = ifOk (GetOk d ''billing_scheme'')
                     (\<lambda>billingScheme params.
                        ifTrue (billingScheme = VString ''tiered'')
                          (\<lambda>params. params\<lparr>PlanParams_Amount := None,
                                             PlanParams_AmountDecimal := None\<rparr>)
                          (params\<lparr>PlanParams_BillingScheme := Some (stringOf billingScheme)\<rparr>))
                     params;
          params = ifOk (GetOk d ''interval_count'')
                     (\<lambda>intervalCount params.
                        params\<lparr>PlanParams_IntervalCount := Some (intOf intervalCount)\<rparr>) params;
          params = params\<lparr>PlanParams_Metadata := Some (expandMetadata d)\<rparr>;
          params = ifOk (GetOk d ''nickname'')
                     (\<lambda>_ params. params\<lparr>PlanParams_Nickname := Some planNickname\<rparr>) params;
          params = ifOk (GetOk d ''tiers_mode'')
                     (\<lambda>tiersMode params.
                        params\<lparr>PlanParams_TiersMode := Some (stringOf tiersMode)\<rparr>) params
      in
      case expandPlanTiers d of
        (tiers, diags) \<Rightarrow>
      if HasError diags then Inl diags
      else
      let params = params\<lparr>PlanParams_Tiers := tiers\<rparr>;
          params = ifOk (GetOk d ''transform_usage'')
                     (\<lambda>transformUsage params.
                        params\<lparr>PlanParams_TransformUsage :=
                                 expandPlanTransformUsage (objsOf transformUsage)\<rparr>) params;
          params = ifOk (GetOk d ''trial_period_days'')
                     (\<lambda>trialPeriodDays params.
                        params\<lparr>PlanParams_TrialPeriodDays := Some (intOf trialPeriodDays)\<rparr>)
                     params;
          params = ifOk (GetOk d ''usage_type'')
                     (\<lambda>usageType params.
                        params\<lparr>PlanParams_UsageType := Some (stringOf usageType)\<rparr>) params
      in Inr params)"

definition resourceStripePlanCreate :: "client \<Rightarrow> ResourceData \<Rightarrow> result" where
  "resourceStripePlanCreate cl d =
     (case planCreateParams d of
        Inl diags \<Rightarrow> (diags, d, [])
      | Inr params \<Rightarrow>
          (case Plans_New cl params of
             Inl err \<Rightarrow> ([FromErr err], d, [PlansNew params])
           | Inr plan \<Rightarrow> ([], SetId (Plan_ID plan) d, [PlansNew params])))"

definition resourceStripePlanDelete :: "client \<Rightarrow> ResourceData \<Rightarrow> result" where
  "resourceStripePlanDelete cl d =
     (case Plans_Del cl (Id d) of
        Inl err \<Rightarrow> ([FromErr err], d, [PlansDel (Id d)])
      | Inr _ \<Rightarrow> ([], SetId [] d, [PlansDel (Id d)]))"

section \<open>The product resource\<close>

text \<open>The schema of \<open>resourceStripeProduct\<close>: the type of each attribute.\<close>

definition resourceStripeProduct :: "(string \<times> Schema) list" where
  "resourceStripeProduct =
     [(''product_id'', \<lparr>Schema_Type = TypeString, Schema_Elem = None\<rparr>),
      (''name'', \<lparr>Schema_Type = TypeString, Schema_Elem = None\<rparr>),
      (''type'', \<lparr>Schema_Type = TypeString, Schema_Elem = None\<rparr>),
      (''active'', \<lparr>Schema_Type = TypeBool, Schema_Elem = None\<rparr>),
      (''attributes'', \<lparr>Schema_Type = TypeList, Schema_Elem = Some (ElemSchema TypeString)\<rparr>),
      (''metadata'', \<lparr>Schema_Type = TypeMap, Schema_Elem = Some (ElemSchema TypeString)\<rparr>),
      (''statement_descriptor'', \<lparr>Schema_Type = TypeString, Schema_Elem = None\<rparr>),
      (''unit_label'', \<lparr>Schema_Type = TypeString, Schema_Elem = None\<rparr>)]"

definition ProductTypeGood :: string where
  "ProductTypeGood = ''good''"

definition ProductTypeService :: string where
  "ProductTypeService = ''service''"

definition expandAttributes :: "ResourceData \<Rightarrow> string list" where
  "expandAttributes d = expandStringList d ''attributes''"

text \<open>
  The part of \<open>resourceStripeProductCreate\<close> before the remote call: the request it
  builds, or the diagnostics of the \<open>default\<close> branch of the switch.
\<close>

definition productCreateParams :: "ResourceData \<Rightarrow> Diagnostics + ProductParams" where
  "productCreateParams d =
     (let productName = GetString d ''name'';
          productType = GetString d ''type'';
          productStatementDescriptor = GetString d ''statement_descriptor'';
          productUnitLabel = GetString d ''unit_label''
      in
      case (if productType = ''good'' then Some ProductTypeGood
            else if productType = ''service'' then Some ProductTypeService
            else None) of
        None \<Rightarrow> Inl [Errorf (''unknown type: '' @ productType)]
      | Some stripeProductType \<Rightarrow>
          (let params = emptyProductParams\<lparr>ProductParams_Name := Some productName,
                                            ProductParams_Type := Some stripeProductType\<rparr>;
               params = ifOk (GetOk d ''product_id'')
                          (\<lambda>productID params.
                             params\<lparr>ProductParams_ID := Some (stringOf productID)\<rparr>) params;
               params = ifOk (GetOk d ''active'')
                          (\<lambda>active params. params\<lparr>ProductParams_Active := Some (boolOf active)\<rparr>)
                          params;
               params = params\<lparr>ProductParams_Attributes := Some (expandAttributes d)\<rparr>;
               params = params\<lparr>ProductParams_Metadata := Some (expandMetadata d)\<rparr>;
               params = ifTrue (productStatementDescriptor \<noteq> [])
                          (\<lambda>params. params\<lparr>ProductParams_StatementDescriptor :=
                                             Some productStatementDescriptor\<rparr>) params;
               params = ifTrue (productUnitLabel \<noteq> [])
                          (\<lambda>params. params\<lparr>ProductParams_UnitLabel := Some productUnitLabel\<rparr>)
                          params
           in Inr params))"

definition resourceStripeProductRead :: "client \<Rightarrow> ResourceData \<Rightarrow> result" where
  "resourceStripeProductRead cl d =
     (case Products_Get cl (Id d) of
        Inl err \<Rightarrow> ([FromErr err], d, [ProductsGet (Id d)])
      | Inr product \<Rightarrow>
          ([],
           SetAll resourceStripeProduct
             [(''product_id'', VString (Product_ID product)),
              (''name'', VString (Product_Name product)),
              (''type'', VString (Product_Type product)),
              (''active'', VBool (Product_Active product)),
              (''attributes'', VList (Product_Attributes product)),
              (''metadata'', VMap (Product_Metadata product)),
              (''statement_descriptor'', VString (Product_StatementDescriptor product)),
              (''unit_label'', VString (Product_UnitLabel product))] d,
           [ProductsGet (Id d)]))"

definition resourceStripeProductCreate :: "client \<Rightarrow> ResourceData \<Rightarrow> result" where
  "resourceStripeProductCreate cl d =
     (case productCreateParams d of
        Inl diags \<Rightarrow> (diags, d, [])
      | Inr params \<Rightarrow>
          (case Products_New cl params of
             Inl err \<Rightarrow> ([FromErr err], d, [ProductsNew params])
           | Inr product \<Rightarrow>
               (case resourceStripeProductRead cl (SetId (Product_ID product) d) of
                  (diags, d', calls) \<Rightarrow> (diags, d', ProductsNew params # calls))))"

section \<open>The tax rate resource\<close>

text \<open>The schema of \<open>resourceStripeTaxRate\<close>: the type of each attribute.\<close>

definition resourceStripeTaxRate :: "(string \<times> Schema) list" where
  "resourceStripeTaxRate =
     [(''active'', \<lparr>Schema_Type = TypeBool, Schema_Elem = None\<rparr>),
      (''created'', \<lparr>Schema_Type = TypeInt, Schema_Elem = None\<rparr>),
      (''description'', \<lparr>Schema_Type = TypeString, Schema_Elem = None\<rparr>),
      (''display_name'', \<lparr>Schema_Type = TypeString, Schema_Elem = None\<rparr>),
      (''inclusive'', \<lparr>Schema_Type = TypeBool, Schema_Elem = None\<rparr>),
      (''jurisdiction'', \<lparr>Schema_Type = TypeString, Schema_Elem = None\<rparr>),
      (''livemode'', \<lparr>Schema_Type = TypeBool, Schema_Elem = None\<rparr>),
      (''metadata'', \<lparr>Schema_Type = TypeMap, Schema_Elem = Some (ElemSchema TypeString)\<rparr>),
      (''percentage'', \<lparr>Schema_Type = TypeFloat, Schema_Elem = None\<rparr>)]"

definition resourceStripeTaxRateRead :: "client \<Rightarrow> ResourceData \<Rightarrow> result" where
  "resourceStripeTaxRateRead cl d =
     (case TaxRates_Get cl (Id d) of
        Inl err \<Rightarrow> ([FromErr err], d, [TaxRatesGet (Id d)])
      | Inr tax \<Rightarrow>
          ([],
           SetAll resourceStripeTaxRate
             [(''active'', VBool (TaxRate_Active tax)),
              (''created'', VInt (TaxRate_Created tax)),
              (''description'', VString (TaxRate_Description tax)),
              (''display_name'', VString (TaxRate_DisplayName tax)),
              (''inclusive'', VBool (TaxRate_Inclusive tax)),
              (''jurisdiction'', VString (TaxRate_Jurisdiction tax)),
              (''livemode'', VBool (TaxRate_Livemode tax)),
              (''metadata'', VMap (TaxRate_Metadata tax))] d,
           [TaxRatesGet (Id d)]))"

text \<open>The request \<open>resourceStripeTaxRateUpdate\<close> builds before it calls the client.\<close>

definition taxRateUpdateParams :: "ResourceData \<Rightarrow> TaxRateParams" where
  "taxRateUpdateParams d =
     (let params = emptyTaxRateParams;
          params = ifTrue (HasChange d ''active'')
                     (\<lambda>params. params\<lparr>TaxRateParams_Active := Some (GetBool d ''active'')\<rparr>)
                     params;
          params = ifTrue (HasChange d ''description'')
                     (\<lambda>params. params\<lparr>TaxRateParams_Description :=
                                        Some (GetString d ''description'')\<rparr>) params;
          params = ifTrue (HasChange d ''diplay_name'')
                     (\<lambda>params. params\<lparr>TaxRateParams_DisplayName :=
                                        Some (GetString d ''display_name'')\<rparr>) params;
          params = ifTrue (HasChange d ''jurisdiction'')
                     (\<lambda>params. params\<lparr>TaxRateParams_Jurisdiction :=
                                        Some (GetString d ''jurisdiction'')\<rparr>) params;
          params = ifTrue (HasChange d ''metadata'')
                     (\<lambda>params. params\<lparr>TaxRateParams_Metadata := Some (expandMetadata d)\<rparr>)
                     params
      in params)"

definition resourceStripeTaxRateUpdate :: "client \<Rightarrow> ResourceData \<Rightarrow> result" where
  "resourceStripeTaxRateUpdate cl d =
     (let params = taxRateUpdateParams d in
      case TaxRates_Update cl (Id d) params of
        Inl err \<Rightarrow> ([FromErr err], d, [TaxRatesUpdate (Id d) params])
      | Inr _ \<Rightarrow>
          (case resourceStripeTaxRateRead cl d of
             (diags, d', calls) \<Rightarrow> (diags, d', TaxRatesUpdate (Id d) params # calls)))"

section \<open>Reading a tier list back\<close>

text \<open>
  \<open>expandPriceTiers\<close> yields the tiers of a request and \<open>flattenPriceTiers\<close> takes the
  tiers of a \<open>stripe.Price\<close>; between the two stands the remote API, which is outside the
  repository. \<open>storedPriceTier\<close> reads a tier of the request as the tier it asks for,
  field by field: an amount the request leaves out is zero, and a tier without a finite
  upper bound has \<open>UpTo = 0\<close>, the sentinel that \<open>flattenPriceTiers\<close> tests. A nil entry of
  the request's list stands for no tier.
\<close>

definition storedPriceTier :: "PriceTierParams \<Rightarrow> PriceTier" where
  "storedPriceTier p =
     \<lparr>PriceTier_FlatAmount = (case PriceTierParams_FlatAmount p of Some n \<Rightarrow> n | None \<Rightarrow> 0),
      PriceTier_FlatAmountDecimal =
        (case PriceTierParams_FlatAmountDecimal p of Some x \<Rightarrow> x | None \<Rightarrow> 0),
      PriceTier_UnitAmount = (case PriceTierParams_UnitAmount p of Some n \<Rightarrow> n | None \<Rightarrow> 0),
      PriceTier_UnitAmountDecimal =
        (case PriceTierParams_UnitAmountDecimal p of Some x \<Rightarrow> x | None \<Rightarrow> 0),
      PriceTier_UpTo = (case PriceTierParams_UpTo p of Some n \<Rightarrow> n | None \<Rightarrow> 0)\<rparr>"

fun storedPriceTiers :: "PriceTierParams option list \<Rightarrow> PriceTier list" where
  "storedPriceTiers [] = []"
| "storedPriceTiers (None # ps) = storedPriceTiers ps"
| "storedPriceTiers (Some p # ps) = storedPriceTier p # storedPriceTiers ps"

text \<open>
  The value of a field of a tier of the local list, as \<open>d.Get\<close> with its type assertion
  reads it: the zero value when the field is absent.
\<close>

definition tierInt :: "(string \<times> val) list \<Rightarrow> string \<Rightarrow> int" where
  "tierInt t f = (case map_of t f of Some v \<Rightarrow> intOf v | None \<Rightarrow> 0)"

definition tierFloat :: "(string \<times> val) list \<Rightarrow> string \<Rightarrow> real" where
  "tierFloat t f = (case map_of t f of Some v \<Rightarrow> floatOf v | None \<Rightarrow> 0)"

definition tierBool :: "(string \<times> val) list \<Rightarrow> string \<Rightarrow> bool" where
  "tierBool t f = (case map_of t f of Some v \<Rightarrow> boolOf v | None \<Rightarrow> False)"

text \<open>
  The tier the round trip is expected to give back for a tier of the local list: every
  field with the value the local tier has for it, and \<open>up_to_inf\<close> also true when the
  upper bound is zero.
\<close>

definition roundTripTier :: "(string \<times> val) list \<Rightarrow> (string \<times> val) list" where
  "roundTripTier t =
     [(''up_to'', VInt (tierInt t ''up_to'')),
      (''up_to_inf'', VBool (tierInt t ''up_to'' = 0 \<or> tierBool t ''up_to_inf'')),
      (''flat_amount'', VInt (tierInt t ''flat_amount'')),
      (''flat_amount_decimal'', VFloat (tierFloat t ''flat_amount_decimal'')),
      (''unit_amount'', VInt (tierInt t ''unit_amount'')),
      (''unit_amount_decimal'', VFloat (tierFloat t ''unit_amount_decimal''))]"

text \<open>The hard deletes among the calls of the client: its \<open>Del\<close> operations.\<close>

fun isDel :: "call \<Rightarrow> bool" where
  "isDel (CouponsDel _) = True"
| "isDel (PlansDel _) = True"
| "isDel _ = False"

section \<open>Example inputs\<close>

text \<open>A client whose every operation succeeds, and an environment, for the examples.\<close>

definition exCoupon :: Coupon where
  "exCoupon =
     \<lparr>Coupon_ID = ''SAVE10'', Coupon_AmountOff = 0, Coupon_Created = 1600000000,
      Coupon_Currency = [], Coupon_Duration = ''once'', Coupon_DurationInMonths = 0,
      Coupon_Livemode = False, Coupon_MaxRedemptions = 0, Coupon_Metadata = [],
      Coupon_Name = ''Ten percent'', Coupon_PercentOff = 10, Coupon_RedeemBy = 0,
      Coupon_TimesRedeemed = 0, Coupon_Valid = True\<rparr>"

definition exRecurring :: PriceRecurring where
  "exRecurring =
     \<lparr>PriceRecurring_AggregateUsage = [], PriceRecurring_Interval = ''month'',
      PriceRecurring_IntervalCount = 1, PriceRecurring_UsageType = ''licensed''\<rparr>"

definition exPrice :: Price where
  "exPrice =
     \<lparr>Price_ID = ''price_1'', Price_Active = True, Price_BillingScheme = ''per_unit'',
      Price_Created = 1600000000, Price_Currency = ''usd'', Price_Livemode = False,
      Price_Metadata = [], Price_Nickname = ''basic'', Price_Product = Some ''prod_1'',
      Price_Recurring = Some exRecurring, Price_TaxBehavior = ''unspecified'',
      Price_Tiers = [], Price_TiersMode = [], Price_UnitAmount = 500,
      Price_UnitAmountDecimal = 500\<rparr>"

definition exPlan :: Plan where
  "exPlan = \<lparr>Plan_ID = ''plan_1'', Plan_Nickname = ''basic''\<rparr>"

definition exProduct :: Product where
  "exProduct =
     \<lparr>Product_ID = ''prod_1'', Product_Active = True, Product_Attributes = [],
      Product_Metadata = [], Product_Name = ''Widget'', Product_StatementDescriptor = [],
      Product_Type = ''good'', Product_UnitLabel = []\<rparr>"

definition exTaxRate :: TaxRate where
  "exTaxRate =
     \<lparr>TaxRate_ID = ''txr_1'', TaxRate_Active = True, TaxRate_Created = 1600000000,
      TaxRate_Description = [], TaxRate_DisplayName = ''VAT'', TaxRate_Inclusive = False,
      TaxRate_Jurisdiction = ''DE'', TaxRate_Livemode = False, TaxRate_Metadata = [],
      TaxRate_Percentage = 19\<rparr>"

definition exClient :: client where
  "exClient =
     \<lparr>Coupons_New = (\<lambda>_. Inr exCoupon), Coupons_Get = (\<lambda>_. Inr exCoupon),
      Coupons_Update = (\<lambda>_ _. Inr exCoupon), Coupons_Del = (\<lambda>_. Inr exCoupon),
      Prices_New = (\<lambda>_. Inr exPrice), Prices_Get = (\<lambda>_. Inr exPrice),
      Prices_Update = (\<lambda>_ _. Inr exPrice),
      Plans_New = (\<lambda>_. Inr exPlan), Plans_Del = (\<lambda>_. Inr exPlan),
      Products_New = (\<lambda>_. Inr exProduct), Products_Get = (\<lambda>_. Inr exProduct),
      TaxRates_Get = (\<lambda>_. Inr exTaxRate), TaxRates_Update = (\<lambda>_ _. Inr exTaxRate)\<rparr>"

definition exEnv :: env where
  "exEnv =
     \<lparr>ParseInt = (\<lambda>s. if s = ''52'' then Some 52 else None),
      ParseRFC3339 = (\<lambda>s. if s = ''2030-01-01T00:00:00Z'' then Some 1893456000 else None),
      getMapKeys = map fst\<rparr>"

text \<open>
  The example inputs hold the required attributes of their resource and the attributes
  the schema gives a default (\<open>active\<close>, \<open>tax_behavior\<close>, \<open>billing_scheme\<close>,
  \<open>interval_count\<close>, \<open>usage_type\<close>).
\<close>

text \<open>A product of a type that is neither \<open>good\<close> nor \<open>service\<close>.\<close>

definition exProductDigital :: ResourceData where
  "exProductDigital =
     \<lparr>Id = [],
      attrs = [''name'' \<mapsto> VString ''E-book'', ''type'' \<mapsto> VString ''digital'',
               ''active'' \<mapsto> VBool True],
      prior = Map.empty\<rparr>"

text \<open>Coupons: a duration outside the three allowed, and a plain valid coupon.\<close>

definition exCouponWeekly :: ResourceData where
  "exCouponWeekly =
     \<lparr>Id = [], attrs = [''code'' \<mapsto> VString ''SAVE10'', ''duration'' \<mapsto> VString ''weekly'',
                         ''percent_off'' \<mapsto> VFloat 10],
      prior = Map.empty\<rparr>"

definition exCouponOnce :: ResourceData where
  "exCouponOnce =
     \<lparr>Id = [], attrs = [''code'' \<mapsto> VString ''SAVE10'', ''duration'' \<mapsto> VString ''once'',
                         ''percent_off'' \<mapsto> VFloat 10],
      prior = Map.empty\<rparr>"

text \<open>A coupon of duration \<open>once\<close> that also sets \<open>duration_in_months\<close>.\<close>

definition exCouponOnceMonths :: ResourceData where
  "exCouponOnceMonths =
     \<lparr>Id = [], attrs = [''code'' \<mapsto> VString ''SAVE10'', ''duration'' \<mapsto> VString ''once'',
                         ''duration_in_months'' \<mapsto> VInt 3, ''percent_off'' \<mapsto> VFloat 10],
      prior = Map.empty\<rparr>"

text \<open>Coupons with a currency and no \<open>amount_off\<close>: the currency \<open>usd\<close>, and the
  currency set to the empty string.\<close>

definition exCouponCurrency :: ResourceData where
  "exCouponCurrency =
     \<lparr>Id = [], attrs = [''code'' \<mapsto> VString ''SAVE10'', ''duration'' \<mapsto> VString ''once'',
                         ''currency'' \<mapsto> VString ''usd'', ''percent_off'' \<mapsto> VFloat 10],
      prior = Map.empty\<rparr>"

definition exCouponEmptyCurrency :: ResourceData where
  "exCouponEmptyCurrency =
     \<lparr>Id = [], attrs = [''code'' \<mapsto> VString ''SAVE10'', ''duration'' \<mapsto> VString ''once'',
                         ''currency'' \<mapsto> VString [], ''percent_off'' \<mapsto> VFloat 10],
      prior = Map.empty\<rparr>"

text \<open>
  A tiered price and a tiered plan whose one tier sets \<open>up_to\<close> to 10 and \<open>up_to_inf\<close> as
  well; and the price with \<open>up_to\<close> set to 0 instead.
\<close>

definition exPriceTierConflict :: ResourceData where
  "exPriceTierConflict =
     \<lparr>Id = [],
      attrs = [''currency'' \<mapsto> VString ''usd'', ''product'' \<mapsto> VString ''prod_1'',
               ''active'' \<mapsto> VBool True, ''tax_behavior'' \<mapsto> VString ''unspecified'',
               ''billing_scheme'' \<mapsto> VString ''tiered'',
               ''tiers_mode'' \<mapsto> VString ''graduated'',
               ''tier'' \<mapsto> VObjs [[(''up_to'', VInt 10), (''up_to_inf'', VBool True),
                                  (''unit_amount'', VInt 100)]]],
      prior = Map.empty\<rparr>"

definition exPlanTierConflict :: ResourceData where
  "exPlanTierConflict =
     \<lparr>Id = [],
      attrs = [''currency'' \<mapsto> VString ''usd'', ''interval'' \<mapsto> VString ''month'',
               ''product'' \<mapsto> VString ''prod_1'', ''active'' \<mapsto> VBool True,
               ''interval_count'' \<mapsto> VInt 1, ''usage_type'' \<mapsto> VString ''licensed'',
               ''billing_scheme'' \<mapsto> VString ''tiered'',
               ''tiers_mode'' \<mapsto> VString ''graduated'',
               ''tier'' \<mapsto> VObjs [[(''up_to'', VInt 10), (''up_to_inf'', VBool True),
                                  (''unit_amount'', VInt 100)]]],
      prior = Map.empty\<rparr>"

definition exPriceTierZeroUpTo :: ResourceData where
  "exPriceTierZeroUpTo =
     \<lparr>Id = [],
      attrs = [''currency'' \<mapsto> VString ''usd'', ''product'' \<mapsto> VString ''prod_1'',
               ''active'' \<mapsto> VBool True, ''tax_behavior'' \<mapsto> VString ''unspecified'',
               ''billing_scheme'' \<mapsto> VString ''tiered'',
               ''tiers_mode'' \<mapsto> VString ''graduated'',
               ''tier'' \<mapsto> VObjs [[(''up_to'', VInt 0), (''up_to_inf'', VBool True),
                                  (''unit_amount'', VInt 100)]]],
      prior = Map.empty\<rparr>"



text \<open>A plan billed per unit with an amount, and a tiered plan of two tiers.\<close>

definition exPlanFlat :: ResourceData where
  "exPlanFlat =
     \<lparr>Id = [],
      attrs = [''currency'' \<mapsto> VString ''usd'', ''interval'' \<mapsto> VString ''month'',
               ''product'' \<mapsto> VString ''prod_1'', ''amount'' \<mapsto> VInt 500,
               ''active'' \<mapsto> VBool True, ''interval_count'' \<mapsto> VInt 1,
               ''usage_type'' \<mapsto> VString ''licensed'',
               ''billing_scheme'' \<mapsto> VString ''per_unit''],
      prior = Map.empty\<rparr>"

definition exPlanTiered :: ResourceData where
  "exPlanTiered =
     \<lparr>Id = [],
      attrs = [''currency'' \<mapsto> VString ''usd'', ''interval'' \<mapsto> VString ''month'',
               ''product'' \<mapsto> VString ''prod_1'', ''active'' \<mapsto> VBool True,
               ''interval_count'' \<mapsto> VInt 1, ''usage_type'' \<mapsto> VString ''licensed'',
               ''billing_scheme'' \<mapsto> VString ''tiered'',
               ''tiers_mode'' \<mapsto> VString ''graduated'',
               ''tier'' \<mapsto> VObjs [[(''up_to'', VInt 10), (''unit_amount'', VInt 100)],
                                 [(''up_to_inf'', VBool True), (''unit_amount'', VInt 50)]]],
      prior = Map.empty\<rparr>"

text \<open>A tiered plan whose one tier sets the flat amount to zero.\<close>

definition exPlanTierFree :: ResourceData where
  "exPlanTierFree =
     \<lparr>Id = [],
      attrs = [''currency'' \<mapsto> VString ''usd'', ''interval'' \<mapsto> VString ''month'',
               ''product'' \<mapsto> VString ''prod_1'', ''active'' \<mapsto> VBool True,
               ''interval_count'' \<mapsto> VInt 1, ''usage_type'' \<mapsto> VString ''licensed'',
               ''billing_scheme'' \<mapsto> VString ''tiered'',
               ''tiers_mode'' \<mapsto> VString ''graduated'',
               ''tier'' \<mapsto> VObjs [[(''up_to'', VInt 10), (''flat_amount'', VInt 0),
                                  (''unit_amount'', VInt 100)]]],
      prior = Map.empty\<rparr>"

text \<open>
  Resources that exist remotely: a coupon, a price and a plan by their ids, and a tax
  rate whose \<open>display_name\<close> has been changed from \<open>VAT\<close> to \<open>Sales tax\<close>.
\<close>

definition exCouponState :: ResourceData where
  "exCouponState = \<lparr>Id = ''SAVE10'', attrs = Map.empty, prior = Map.empty\<rparr>"

definition exPriceState :: ResourceData where
  "exPriceState = \<lparr>Id = ''price_1'', attrs = Map.empty, prior = Map.empty\<rparr>"

definition exPlanState :: ResourceData where
  "exPlanState = \<lparr>Id = ''plan_1'', attrs = Map.empty, prior = Map.empty\<rparr>"

definition exTaxRateRenamed :: ResourceData where
  "exTaxRateRenamed =
     \<lparr>Id = ''txr_1'',
      attrs = [''active'' \<mapsto> VBool True, ''display_name'' \<mapsto> VString ''Sales tax'',
               ''inclusive'' \<mapsto> VBool False, ''jurisdiction'' \<mapsto> VString ''DE'',
               ''percentage'' \<mapsto> VFloat 19],
      prior = [''active'' \<mapsto> VBool True, ''display_name'' \<mapsto> VString ''VAT'',
               ''inclusive'' \<mapsto> VBool False, ''jurisdiction'' \<mapsto> VString ''DE'',
               ''percentage'' \<mapsto> VFloat 19]\<rparr>"

text \<open>A coupon of which only the \<open>name\<close> has been changed.\<close>

definition exCouponRenamed :: ResourceData where
  "exCouponRenamed =
     \<lparr>Id = ''SAVE10'',
      attrs = [''code'' \<mapsto> VString ''SAVE10'', ''duration'' \<mapsto> VString ''once'',
               ''percent_off'' \<mapsto> VFloat 10, ''name'' \<mapsto> VString ''Spring sale''],
      prior = [''code'' \<mapsto> VString ''SAVE10'', ''duration'' \<mapsto> VString ''once'',
               ''percent_off'' \<mapsto> VFloat 10, ''name'' \<mapsto> VString ''Ten percent'']\<rparr>"

text \<open>
  A price whose one tier sets both the integer and the decimal form of the flat amount,
  and the same price without the decimal form.
\<close>

definition exPriceBothForms :: ResourceData where
  "exPriceBothForms =
     \<lparr>Id = [],
      attrs = [''currency'' \<mapsto> VString ''usd'', ''product'' \<mapsto> VString ''prod_1'',
               ''active'' \<mapsto> VBool True, ''tax_behavior'' \<mapsto> VString ''unspecified'',
               ''billing_scheme'' \<mapsto> VString ''tiered'',
               ''tiers_mode'' \<mapsto> VString ''graduated'',
               ''tier'' \<mapsto> VObjs [[(''up_to'', VInt 10), (''flat_amount'', VInt 100),
                                  (''flat_amount_decimal'', VFloat 150),
                                  (''unit_amount'', VInt 5)]]],
      prior = Map.empty\<rparr>"

definition exPriceIntegerForm :: ResourceData where
  "exPriceIntegerForm =
     \<lparr>Id = [],
      attrs = [''currency'' \<mapsto> VString ''usd'', ''product'' \<mapsto> VString ''prod_1'',
               ''active'' \<mapsto> VBool True, ''tax_behavior'' \<mapsto> VString ''unspecified'',
               ''billing_scheme'' \<mapsto> VString ''tiered'',
               ''tiers_mode'' \<mapsto> VString ''graduated'',
               ''tier'' \<mapsto> VObjs [[(''up_to'', VInt 10), (''flat_amount'', VInt 100),
                                  (''unit_amount'', VInt 5)]]],
      prior = Map.empty\<rparr>"

text \<open>A price with three tiers that set one form of each amount at most.\<close>

definition exPriceGraduated :: ResourceData where
  "exPriceGraduated =
     \<lparr>Id = [],
      attrs = [''currency'' \<mapsto> VString ''usd'', ''product'' \<mapsto> VString ''prod_1'',
               ''active'' \<mapsto> VBool True, ''tax_behavior'' \<mapsto> VString ''unspecified'',
               ''billing_scheme'' \<mapsto> VString ''tiered'',
               ''tiers_mode'' \<mapsto> VString ''graduated'',
               ''tier'' \<mapsto> VObjs [[(''up_to'', VInt 10), (''flat_amount'', VInt 0),
                                  (''unit_amount'', VInt 100)],
                                 [(''up_to'', VInt 20), (''unit_amount_decimal'', VFloat 75)],
                                 [(''up_to_inf'', VBool True), (''unit_amount'', VInt 50)]]],
      prior = Map.empty\<rparr>"

section \<open>Verified properties\<close>

subsection \<open>Product creation rejects an unknown type\<close>

text \<open>
  C10. When the \<open>type\<close> of a product is neither \<open>good\<close> nor \<open>service\<close>,
  \<open>resourceStripeProductCreate\<close> returns the local error \<open>unknown type: <type>\<close>, leaves
  the resource data as it was, and makes no call to the remote client.
\<close>

theorem product_create_unknown_type:
  assumes "GetString d ''type'' \<noteq> ''good''" and "GetString d ''type'' \<noteq> ''service''"
  shows "resourceStripeProductCreate cl d
           = ([Errorf (''unknown type: '' @ GetString d ''type'')], d, [])"
  using assms by (simp add: resourceStripeProductCreate_def productCreateParams_def)

theorem product_create_unknown_type_witness:
  "GetString exProductDigital ''type'' \<noteq> ''good''
   \<and> GetString exProductDigital ''type'' \<noteq> ''service''
   \<and> resourceStripeProductCreate exClient exProductDigital
       = ([Errorf ''unknown type: digital''], exProductDigital, [])"
proof -
  have a: "GetString exProductDigital ''type'' \<noteq> ''good''"
    by (simp add: GetString_def exProductDigital_def)
  have b: "GetString exProductDigital ''type'' \<noteq> ''service''"
    by (simp add: GetString_def exProductDigital_def)
  have c: "GetString exProductDigital ''type'' = ''digital''"
    by (simp add: GetString_def exProductDigital_def)
  show ?thesis
    using a b product_create_unknown_type [OF a b, of exClient] by (simp add: c)
qed

subsection \<open>Auxiliary facts about the conditional statements\<close>

lemma ifOk_simps [simp]:
  "ifOk None body p = p"
  "ifOk (Some v) body p = body v p"
  by (simp_all add: ifOk_def)

lemma ifTrue_simps [simp]:
  "ifTrue True body p = body p"
  "ifTrue False body p = p"
  by (simp_all add: ifTrue_def)

lemma sel_ifOk: "f (ifOk r body p) = (case r of None \<Rightarrow> f p | Some v \<Rightarrow> f (body v p))"
  by (cases r) simp_all

lemma sel_ifTrue: "f (ifTrue c body p) = (if c then f (body p) else f p)"
  by (cases c) simp_all

lemma case_option_const: "(case x of None \<Rightarrow> c | Some v \<Rightarrow> c) = c"
  by (cases x) simp_all

lemma nonZero_eq_Some: "nonZero r = Some v \<longleftrightarrow> r = Some v \<and> \<not> isZero v"
  by (cases r) (auto simp: nonZero_def)

lemma nonZero_eq_None: "nonZero r = None \<longleftrightarrow> r = None \<or> (\<exists>v. r = Some v \<and> isZero v)"
  by (cases r) (auto simp: nonZero_def)

subsection \<open>The control flow of coupon creation\<close>

lemma index_validDurations:
  "index validDurations s = (s = ''forever'' \<or> s = ''once'' \<or> s = ''repeating'')"
  by (auto simp: index_def validDurations_def)

lemmas coupon_sel =
  sel_ifOk [of CouponParams_AmountOff] sel_ifTrue [of CouponParams_AmountOff]
  sel_ifOk [of CouponParams_Duration] sel_ifTrue [of CouponParams_Duration]
  case_option_const emptyCouponParams_def

lemma couponCreateParams_invalid:
  "\<not> index validDurations (GetString d ''duration'') \<Longrightarrow>
   couponCreateParams e d =
     Inl [Errorf (quote @ GetString d ''duration'' @ quote @ '' is not a valid value for ''
            @ quote @ ''duration'' @ quote @ '', expected one of ''
            @ (''( '' @ Join (getMapKeys e validDurations) '' | '' @ '' )''))]"
  unfolding couponCreateParams_def Let_def by simp

lemma couponCreateParams_months:
  "index validDurations (GetString d ''duration'') \<Longrightarrow>
   GetOk d ''duration_in_months'' \<noteq> None \<Longrightarrow> GetString d ''duration'' \<noteq> ''repeating'' \<Longrightarrow>
   couponCreateParams e d = Inl [Errorf ''can't set duration in months if event is not repeating'']"
  unfolding couponCreateParams_def Let_def by simp

lemma couponCreateParams_currency:
  "index validDurations (GetString d ''duration'') \<Longrightarrow>
   \<not> (GetOk d ''duration_in_months'' \<noteq> None \<and> GetString d ''duration'' \<noteq> ''repeating'') \<Longrightarrow>
   GetOk d ''currency'' \<noteq> None \<Longrightarrow> GetOk d ''amount_off'' = None \<Longrightarrow>
   couponCreateParams e d = Inl [Errorf ''can only set currency when using amount_off'']"
  by (simp add: couponCreateParams_def Let_def coupon_sel cong: option.case_cong if_cong)

lemma couponCreateParams_redeem:
  "index validDurations (GetString d ''duration'') \<Longrightarrow>
   \<not> (GetOk d ''duration_in_months'' \<noteq> None \<and> GetString d ''duration'' \<noteq> ''repeating'') \<Longrightarrow>
   \<not> (GetOk d ''currency'' \<noteq> None \<and> GetOk d ''amount_off'' = None) \<Longrightarrow>
   GetOk d ''redeem_by'' = Some r \<Longrightarrow> ParseRFC3339 e (stringOf r) = None \<Longrightarrow>
   couponCreateParams e d =
     Inl [Errorf (''can't convert time '' @ quote @ stringOf r @ quote
            @ '' to time.  Please check if it's RFC3339-compliant'')]"
  by (cases "GetOk d ''amount_off''")
     (simp_all add: couponCreateParams_def Let_def coupon_sel cong: option.case_cong if_cong)

lemma couponCreateParams_Inr:
  "index validDurations (GetString d ''duration'') \<Longrightarrow>
   \<not> (GetOk d ''duration_in_months'' \<noteq> None \<and> GetString d ''duration'' \<noteq> ''repeating'') \<Longrightarrow>
   \<not> (GetOk d ''currency'' \<noteq> None \<and> GetOk d ''amount_off'' = None) \<Longrightarrow>
   \<forall>r. GetOk d ''redeem_by'' = Some r \<longrightarrow> ParseRFC3339 e (stringOf r) \<noteq> None \<Longrightarrow>
   \<exists>params. couponCreateParams e d = Inr params
      \<and> CouponParams_Duration params = Some (GetString d ''duration'')
      \<and> CouponParams_AmountOff params = map_option intOf (GetOk d ''amount_off'')"
  apply (cases "GetOk d ''amount_off''"; cases "GetOk d ''redeem_by''")
  apply (auto simp add: couponCreateParams_def Let_def coupon_sel index_validDurations
      cong: option.case_cong if_cong)
  done

subsection \<open>Coupon creation validates the duration\<close>

text \<open>
  C8, as amended. When the \<open>duration\<close> of a coupon is none of \<open>forever\<close>, \<open>once\<close> and
  \<open>repeating\<close>, \<open>resourceStripeCouponCreate\<close> returns the error that names the offending
  value, leaves the resource data as it was and makes no remote call. When the
  duration is one of the three, the duration error is never returned, and the create
  request is sent, carrying the duration, provided the later validations pass:
  \<open>duration_in_months\<close> is only set with \<open>repeating\<close>, \<open>currency\<close> is only set together
  with \<open>amount_off\<close>, and \<open>redeem_by\<close>, when set, parses as RFC 3339.
\<close>

theorem coupon_create_duration_validation:
  "(GetString d ''duration'' \<notin> {''forever'', ''once'', ''repeating''} \<longrightarrow>
      resourceStripeCouponCreate e cl d =
        ([Errorf (quote @ GetString d ''duration'' @ quote @ '' is not a valid value for ''
            @ quote @ ''duration'' @ quote @ '', expected one of ''
            @ (''( '' @ Join (getMapKeys e validDurations) '' | '' @ '' )''))], d, []))
   \<and> (GetString d ''duration'' \<in> {''forever'', ''once'', ''repeating''} \<longrightarrow>
        (\<forall>s. fst (resourceStripeCouponCreate e cl d) \<noteq>
           [Errorf (quote @ s @ quote @ '' is not a valid value for ''
            @ quote @ ''duration'' @ quote @ '', expected one of ''
            @ (''( '' @ Join (getMapKeys e validDurations) '' | '' @ '' )''))]))
   \<and> (GetString d ''duration'' \<in> {''forever'', ''once'', ''repeating''} \<longrightarrow>
        (GetOk d ''duration_in_months'' = None \<or> GetString d ''duration'' = ''repeating'') \<longrightarrow>
        (GetOk d ''currency'' = None \<or> GetOk d ''amount_off'' \<noteq> None) \<longrightarrow>
        (\<forall>r. GetOk d ''redeem_by'' = Some r \<longrightarrow> ParseRFC3339 e (stringOf r) \<noteq> None) \<longrightarrow>
        (\<exists>params. couponCreateParams e d = Inr params
           \<and> CouponParams_Duration params = Some (GetString d ''duration'')
           \<and> snd (snd (resourceStripeCouponCreate e cl d)) = [CouponsNew params]))"
proof (intro conjI impI allI)
  assume "GetString d ''duration'' \<notin> {''forever'', ''once'', ''repeating''}"
  then have "\<not> index validDurations (GetString d ''duration'')"
    by (simp add: index_validDurations)
  then show "resourceStripeCouponCreate e cl d =
        ([Errorf (quote @ GetString d ''duration'' @ quote @ '' is not a valid value for ''
            @ quote @ ''duration'' @ quote @ '', expected one of ''
            @ (''( '' @ Join (getMapKeys e validDurations) '' | '' @ '' )''))], d, [])"
    by (simp add: resourceStripeCouponCreate_def couponCreateParams_invalid)
next
  fix s
  assume "GetString d ''duration'' \<in> {''forever'', ''once'', ''repeating''}"
  then have v: "index validDurations (GetString d ''duration'')"
    by (simp add: index_validDurations)
  let ?m = "GetOk d ''duration_in_months'' \<noteq> None \<and> GetString d ''duration'' \<noteq> ''repeating''"
  let ?c = "GetOk d ''currency'' \<noteq> None \<and> GetOk d ''amount_off'' = None"
  let ?goal = "fst (resourceStripeCouponCreate e cl d) \<noteq>
           [Errorf (quote @ s @ quote @ '' is not a valid value for ''
            @ quote @ ''duration'' @ quote @ '', expected one of ''
            @ (''( '' @ Join (getMapKeys e validDurations) '' | '' @ '' )''))]"
  consider (months) ?m | (currency) "\<not> ?m" ?c
    | (redeem) r where "\<not> ?m" "\<not> ?c" "GetOk d ''redeem_by'' = Some r"
        "ParseRFC3339 e (stringOf r) = None"
    | (ok) "\<not> ?m" "\<not> ?c"
        "\<forall>r. GetOk d ''redeem_by'' = Some r \<longrightarrow> ParseRFC3339 e (stringOf r) \<noteq> None"
    by blast
  then show ?goal
  proof cases
    case months
    then show ?thesis
      using v by (simp add: resourceStripeCouponCreate_def couponCreateParams_months quote_def)
  next
    case currency
    then show ?thesis
      using v by (simp add: resourceStripeCouponCreate_def couponCreateParams_currency quote_def)
  next
    case redeem
    then show ?thesis
      using v by (simp add: resourceStripeCouponCreate_def couponCreateParams_redeem quote_def)
  next
    case ok
    then obtain params where "couponCreateParams e d = Inr params"
      using v couponCreateParams_Inr [of d e] by blast
    then show ?thesis
      by (cases "Coupons_New cl params") (simp_all add: resourceStripeCouponCreate_def)
  qed
next
  assume "GetString d ''duration'' \<in> {''forever'', ''once'', ''repeating''}"
    and m: "GetOk d ''duration_in_months'' = None \<or> GetString d ''duration'' = ''repeating''"
    and c: "GetOk d ''currency'' = None \<or> GetOk d ''amount_off'' \<noteq> None"
    and r: "\<forall>r. GetOk d ''redeem_by'' = Some r \<longrightarrow> ParseRFC3339 e (stringOf r) \<noteq> None"
  then have v: "index validDurations (GetString d ''duration'')"
    by (simp add: index_validDurations)
  from m have m': "\<not> (GetOk d ''duration_in_months'' \<noteq> None \<and> GetString d ''duration'' \<noteq> ''repeating'')"
    by auto
  from c have c': "\<not> (GetOk d ''currency'' \<noteq> None \<and> GetOk d ''amount_off'' = None)"
    by auto
  obtain params where p: "couponCreateParams e d = Inr params"
      "CouponParams_Duration params = Some (GetString d ''duration'')"
    using couponCreateParams_Inr [OF v m' c' r] by blast
  have "snd (snd (resourceStripeCouponCreate e cl d)) = [CouponsNew params]"
    using p(1) by (cases "Coupons_New cl params") (simp_all add: resourceStripeCouponCreate_def)
  with p show "\<exists>params. couponCreateParams e d = Inr params
           \<and> CouponParams_Duration params = Some (GetString d ''duration'')
           \<and> snd (snd (resourceStripeCouponCreate e cl d)) = [CouponsNew params]"
    by blast
qed

theorem coupon_create_duration_validation_witness:
  "GetString exCouponWeekly ''duration'' \<notin> {''forever'', ''once'', ''repeating''}
   \<and> resourceStripeCouponCreate exEnv exClient exCouponWeekly =
        ([Errorf (quote @ ''weekly'' @ quote @ '' is not a valid value for ''
            @ quote @ ''duration'' @ quote @ '', expected one of ( repeating | once | forever )'')],
         exCouponWeekly, [])
   \<and> GetString exCouponOnce ''duration'' \<in> {''forever'', ''once'', ''repeating''}
   \<and> (\<exists>params. couponCreateParams exEnv exCouponOnce = Inr params
           \<and> CouponParams_Duration params = Some ''once''
           \<and> snd (snd (resourceStripeCouponCreate exEnv exClient exCouponOnce)) = [CouponsNew params])"
proof -
  have w: "GetString exCouponWeekly ''duration'' = ''weekly''"
    by (simp add: GetString_def exCouponWeekly_def)
  have o: "GetString exCouponOnce ''duration'' = ''once''"
    by (simp add: GetString_def exCouponOnce_def)
  have k: "Join (getMapKeys exEnv validDurations) '' | '' = ''repeating | once | forever''"
    by (simp add: exEnv_def validDurations_def)
  have g: "GetOk exCouponOnce ''duration_in_months'' = None"
    "GetOk exCouponOnce ''currency'' = None" "GetOk exCouponOnce ''redeem_by'' = None"
    by (simp_all add: GetOk_def nonZero_def exCouponOnce_def)
  have 1: "resourceStripeCouponCreate exEnv exClient exCouponWeekly =
        ([Errorf (quote @ ''weekly'' @ quote @ '' is not a valid value for ''
            @ quote @ ''duration'' @ quote @ '', expected one of ( repeating | once | forever )'')],
         exCouponWeekly, [])"
    using coupon_create_duration_validation [of exCouponWeekly exEnv exClient]
    by (simp add: w k)
  have 2: "\<exists>params. couponCreateParams exEnv exCouponOnce = Inr params
           \<and> CouponParams_Duration params = Some ''once''
           \<and> snd (snd (resourceStripeCouponCreate exEnv exClient exCouponOnce)) = [CouponsNew params]"
    using coupon_create_duration_validation [of exCouponOnce exEnv exClient]
    by (simp add: o g)
  show ?thesis using 1 2 by (simp add: w o)
qed

text \<open>
  The claim as stated fails: with the valid duration \<open>once\<close> and \<open>duration_in_months\<close>
  set, the later validation returns an error and no create request is sent.
\<close>

theorem coupon_create_valid_duration_without_request:
  "GetString exCouponOnceMonths ''duration'' = ''once''
   \<and> resourceStripeCouponCreate exEnv exClient exCouponOnceMonths =
        ([Errorf ''can't set duration in months if event is not repeating''],
         exCouponOnceMonths, [])"
proof -
  have o: "GetString exCouponOnceMonths ''duration'' = ''once''"
    by (simp add: GetString_def exCouponOnceMonths_def)
  have g: "GetOk exCouponOnceMonths ''duration_in_months'' \<noteq> None"
    by (simp add: GetOk_def nonZero_def exCouponOnceMonths_def)
  have "couponCreateParams exEnv exCouponOnceMonths =
          Inl [Errorf ''can't set duration in months if event is not repeating'']"
    by (rule couponCreateParams_months) (simp_all add: o g index_validDurations)
  then show ?thesis
    by (simp add: o resourceStripeCouponCreate_def)
qed

subsection \<open>A coupon currency requires an amount off\<close>

text \<open>
  C9, as amended. When \<open>currency\<close> is set to a non-empty string and \<open>amount_off\<close> is
  absent (or zero), \<open>resourceStripeCouponCreate\<close> returns a validation error, leaves the
  resource data as it was and makes no remote call; when the duration checks that come
  first pass, the error is \<open>can only set currency when using amount_off\<close>.
\<close>

theorem coupon_create_currency_requires_amount_off:
  assumes "attrs d ''currency'' = Some (VString c)" and "c \<noteq> []"
    and "attrs d ''amount_off'' = None \<or> attrs d ''amount_off'' = Some (VInt 0)"
  shows "(\<exists>msg. resourceStripeCouponCreate e cl d = ([Errorf msg], d, []))
     \<and> (GetString d ''duration'' \<in> {''forever'', ''once'', ''repeating''} \<longrightarrow>
          (GetOk d ''duration_in_months'' = None \<or> GetString d ''duration'' = ''repeating'') \<longrightarrow>
          resourceStripeCouponCreate e cl d =
            ([Errorf ''can only set currency when using amount_off''], d, []))"
proof -
  have cur: "GetOk d ''currency'' \<noteq> None"
    using assms(1,2) by (simp add: GetOk_def nonZero_def)
  have amt: "GetOk d ''amount_off'' = None"
    using assms(3) by (auto simp: GetOk_def nonZero_def)
  let ?v = "index validDurations (GetString d ''duration'')"
  let ?m = "GetOk d ''duration_in_months'' \<noteq> None \<and> GetString d ''duration'' \<noteq> ''repeating''"
  have ok: "?v \<Longrightarrow> \<not> ?m \<Longrightarrow> resourceStripeCouponCreate e cl d =
            ([Errorf ''can only set currency when using amount_off''], d, [])"
    using cur amt by (simp add: resourceStripeCouponCreate_def couponCreateParams_currency)
  have "\<exists>msg. resourceStripeCouponCreate e cl d = ([Errorf msg], d, [])"
  proof (cases ?v)
    case False
    then show ?thesis
      by (simp add: resourceStripeCouponCreate_def couponCreateParams_invalid)
  next
    case True
    show ?thesis
    proof (cases ?m)
      case True
      with \<open>?v\<close> show ?thesis
        by (simp add: resourceStripeCouponCreate_def couponCreateParams_months)
    next
      case False
      with \<open>?v\<close> ok show ?thesis by simp
    qed
  qed
  moreover have "GetString d ''duration'' \<in> {''forever'', ''once'', ''repeating''} \<longrightarrow>
          (GetOk d ''duration_in_months'' = None \<or> GetString d ''duration'' = ''repeating'') \<longrightarrow>
          resourceStripeCouponCreate e cl d =
            ([Errorf ''can only set currency when using amount_off''], d, [])"
    using ok by (auto simp: index_validDurations)
  ultimately show ?thesis by simp
qed

theorem coupon_create_currency_requires_amount_off_witness:
  "attrs exCouponCurrency ''currency'' = Some (VString ''usd'')
   \<and> attrs exCouponCurrency ''amount_off'' = None
   \<and> resourceStripeCouponCreate exEnv exClient exCouponCurrency =
       ([Errorf ''can only set currency when using amount_off''], exCouponCurrency, [])"
proof -
  have a: "attrs exCouponCurrency ''currency'' = Some (VString ''usd'')"
    by (simp add: exCouponCurrency_def)
  have b: "attrs exCouponCurrency ''amount_off'' = None"
    by (simp add: exCouponCurrency_def)
  have o: "GetString exCouponCurrency ''duration'' = ''once''"
    by (simp add: GetString_def exCouponCurrency_def)
  have g: "GetOk exCouponCurrency ''duration_in_months'' = None"
    by (simp add: GetOk_def nonZero_def exCouponCurrency_def)
  have "resourceStripeCouponCreate exEnv exClient exCouponCurrency =
       ([Errorf ''can only set currency when using amount_off''], exCouponCurrency, [])"
    using coupon_create_currency_requires_amount_off [of exCouponCurrency "''usd''" exEnv exClient]
    by (simp add: a b o g)
  with a b show ?thesis by simp
qed

text \<open>
  The claim as stated fails when \<open>currency\<close> is set to the empty string: \<open>GetOk\<close> reports
  the zero value as not set, the check is skipped and the create request is sent.
\<close>

theorem coupon_create_empty_currency_sends_request:
  "attrs exCouponEmptyCurrency ''currency'' = Some (VString [])
   \<and> attrs exCouponEmptyCurrency ''amount_off'' = None
   \<and> fst (resourceStripeCouponCreate exEnv exClient exCouponEmptyCurrency) = []
   \<and> snd (snd (resourceStripeCouponCreate exEnv exClient exCouponEmptyCurrency)) =
       [CouponsNew \<lparr>CouponParams_ID = Some ''SAVE10'', CouponParams_AmountOff = None,
          CouponParams_Currency = None, CouponParams_Duration = Some ''once'',
          CouponParams_DurationInMonths = None, CouponParams_MaxRedemptions = None,
          CouponParams_Metadata = Some [], CouponParams_Name = None,
          CouponParams_PercentOff = Some 10, CouponParams_RedeemBy = None\<rparr>]"
  by (simp add: resourceStripeCouponCreate_def couponCreateParams_def Let_def GetOk_def
      nonZero_def GetString_def index_def validDurations_def exCouponEmptyCurrency_def
      expandMetadata_def emptyCouponParams_def exClient_def)

subsection \<open>Expanding tiers\<close>

lemma expandPriceTier_conflict:
  "GetOkTier d idx ''up_to'' \<noteq> None \<Longrightarrow> GetOkExistsTier d idx ''up_to_inf'' \<noteq> None \<Longrightarrow>
   expandPriceTier d idx = (None, [Errorf ''up_to: conflicts with up_to_inf''])"
  by (simp add: expandPriceTier_def Let_def)

lemma expandPriceTier_ok:
  "\<not> (GetOkTier d idx ''up_to'' \<noteq> None \<and> GetOkExistsTier d idx ''up_to_inf'' \<noteq> None) \<Longrightarrow>
   expandPriceTier d idx =
     (Some \<lparr>PriceTierParams_FlatAmount = map_option intOf (tierAttr d idx ''flat_amount''),
            PriceTierParams_FlatAmountDecimal =
              (case tierAttr d idx ''flat_amount'' of
                 Some _ \<Rightarrow> None
               | None \<Rightarrow> map_option floatOf (tierAttr d idx ''flat_amount_decimal'')),
            PriceTierParams_UnitAmount = map_option intOf (tierAttr d idx ''unit_amount''),
            PriceTierParams_UnitAmountDecimal =
              (case tierAttr d idx ''unit_amount'' of
                 Some _ \<Rightarrow> None
               | None \<Rightarrow> map_option floatOf (tierAttr d idx ''unit_amount_decimal'')),
            PriceTierParams_UpTo = map_option intOf (GetOkTier d idx ''up_to''),
            PriceTierParams_UpToInf = map_option boolOf (tierAttr d idx ''up_to_inf'')\<rparr>, [])"
  by (cases "GetOkTier d idx ''up_to''"; cases "tierAttr d idx ''up_to_inf''";
      cases "tierAttr d idx ''flat_amount''"; cases "tierAttr d idx ''flat_amount_decimal''";
      cases "tierAttr d idx ''unit_amount''"; cases "tierAttr d idx ''unit_amount_decimal''")
     (simp_all add: expandPriceTier_def Let_def GetOkExistsTier_def emptyPriceTierParams_def)

lemma expandPriceTiersLoop_fst:
  "fst (expandPriceTiersLoop d is) = map (\<lambda>i. fst (expandPriceTier d i)) is"
  by (induction "is") (auto split: prod.splits)

lemma expandPriceTiersLoop_snd:
  "snd (expandPriceTiersLoop d is) = concat (map (\<lambda>i. snd (expandPriceTier d i)) is)"
  by (induction "is") (auto split: prod.splits)

lemma expandPlanTier_conflict:
  "GetOkTier d idx ''up_to'' \<noteq> None \<Longrightarrow> GetOkExistsTier d idx ''up_to_inf'' \<noteq> None \<Longrightarrow>
   expandPlanTier d idx = (None, [Errorf ''up_to: conflicts with up_to_inf''])"
  by (simp add: expandPlanTier_def Let_def)

lemma expandPlanTier_ok:
  "\<not> (GetOkTier d idx ''up_to'' \<noteq> None \<and> GetOkExistsTier d idx ''up_to_inf'' \<noteq> None) \<Longrightarrow>
   expandPlanTier d idx =
     (Some \<lparr>PlanTierParams_FlatAmount = map_option intOf (GetOkTier d idx ''flat_amount''),
            PlanTierParams_FlatAmountDecimal =
              (case GetOkTier d idx ''flat_amount'' of
                 Some _ \<Rightarrow> None
               | None \<Rightarrow> map_option floatOf (GetOkTier d idx ''flat_amount_decimal'')),
            PlanTierParams_UnitAmount = map_option intOf (GetOkTier d idx ''unit_amount''),
            PlanTierParams_UnitAmountDecimal =
              (case GetOkTier d idx ''unit_amount'' of
                 Some _ \<Rightarrow> None
               | None \<Rightarrow> map_option floatOf (GetOkTier d idx ''unit_amount_decimal'')),
            PlanTierParams_UpTo = map_option intOf (GetOkTier d idx ''up_to''),
            PlanTierParams_UpToInf = map_option boolOf (tierAttr d idx ''up_to_inf'')\<rparr>, [])"
  by (cases "GetOkTier d idx ''up_to''"; cases "tierAttr d idx ''up_to_inf''";
      cases "GetOkTier d idx ''flat_amount''"; cases "GetOkTier d idx ''flat_amount_decimal''";
      cases "GetOkTier d idx ''unit_amount''"; cases "GetOkTier d idx ''unit_amount_decimal''")
     (simp_all add: expandPlanTier_def Let_def GetOkExistsTier_def emptyPlanTierParams_def)

lemma expandPlanTiersLoop_fst:
  "fst (expandPlanTiersLoop d is) = map (\<lambda>i. fst (expandPlanTier d i)) is"
  by (induction "is") (auto split: prod.splits)

lemma expandPlanTiersLoop_snd:
  "snd (expandPlanTiersLoop d is) = concat (map (\<lambda>i. snd (expandPlanTier d i)) is)"
  by (induction "is") (auto split: prod.splits)

text \<open>A field of the tier at \<open>idx\<close> exists only for an index of the non-empty list \<open>tier\<close>.\<close>

lemma tierAttr_Some_GetOk:
  assumes "tierAttr d idx f = Some x"
  shows "\<exists>v. GetOk d ''tier'' = Some v \<and> idx < length (objsOf v)"
proof -
  from assms obtain v where v: "attrs d ''tier'' = Some v" "idx < length (objsOf v)"
    by (auto simp: tierAttr_def split: option.splits if_splits)
  then have "\<not> isZero v" by (cases v) auto
  with v show ?thesis by (simp add: GetOk_def nonZero_def)
qed

lemma priceCreateParams_tier_error:
  "HasError (snd (expandPriceTiers d)) \<Longrightarrow> priceCreateParams e d = Inl (snd (expandPriceTiers d))"
  by (cases "expandPriceTiers d") (simp add: priceCreateParams_def Let_def)

lemma planCreateParams_tier_error:
  "HasError (snd (expandPlanTiers d)) \<Longrightarrow> planCreateParams d = Inl (snd (expandPlanTiers d))"
  by (cases "expandPlanTiers d") (simp add: planCreateParams_def Let_def)

subsection \<open>A tier with both an upper bound and the unbounded flag\<close>

text \<open>
  C7, as amended. For a tier (of a price or of a plan) whose \<open>up_to\<close> is set to a value
  other than zero and whose \<open>up_to_inf\<close> is set (to either value), expanding the tier
  fails with the error \<open>up_to: conflicts with up_to_inf\<close>; creating the price or the plan
  returns diagnostics that hold this error, leaves the resource data as it was and
  makes no remote call.
\<close>

theorem tier_up_to_conflicts_with_up_to_inf:
  assumes "tierAttr d idx ''up_to'' = Some u" and "\<not> isZero u"
    and "tierAttr d idx ''up_to_inf'' = Some b"
  shows "expandPriceTier d idx = (None, [Errorf ''up_to: conflicts with up_to_inf''])
     \<and> expandPlanTier d idx = (None, [Errorf ''up_to: conflicts with up_to_inf''])
     \<and> (\<exists>diags. Errorf ''up_to: conflicts with up_to_inf'' \<in> set diags
           \<and> resourceStripePriceCreate e cl d = (diags, d, []))
     \<and> (\<exists>diags. Errorf ''up_to: conflicts with up_to_inf'' \<in> set diags
           \<and> resourceStripePlanCreate cl d = (diags, d, []))"
proof -
  let ?err = "Errorf ''up_to: conflicts with up_to_inf''"
  have up: "GetOkTier d idx ''up_to'' \<noteq> None"
    using assms(1,2) by (simp add: GetOkTier_def nonZero_def)
  have inf: "GetOkExistsTier d idx ''up_to_inf'' \<noteq> None"
    using assms(3) by (simp add: GetOkExistsTier_def)
  have price: "expandPriceTier d idx = (None, [?err])"
    using up inf by (rule expandPriceTier_conflict)
  have plan: "expandPlanTier d idx = (None, [?err])"
    using up inf by (rule expandPlanTier_conflict)
  obtain v where v: "GetOk d ''tier'' = Some v" "idx < length (objsOf v)"
    using tierAttr_Some_GetOk [OF assms(1)] by blast
  have mem: "idx \<in> set [0 ..< length (objsOf v)]"
    using v(2) by simp
  have "?err \<in> set (snd (expandPriceTiers d))"
    using v(1) mem price
    by (force simp: expandPriceTiers_def expandPriceTiersLoop_snd)
  moreover from this have "HasError (snd (expandPriceTiers d))"
    by (auto simp: HasError_def)
  then have "resourceStripePriceCreate e cl d = (snd (expandPriceTiers d), d, [])"
    by (simp add: resourceStripePriceCreate_def priceCreateParams_tier_error)
  ultimately have c1: "\<exists>diags. ?err \<in> set diags \<and> resourceStripePriceCreate e cl d = (diags, d, [])"
    by blast
  have "?err \<in> set (snd (expandPlanTiers d))"
    using v(1) mem plan
    by (force simp: expandPlanTiers_def expandPlanTiersLoop_snd)
  moreover from this have "HasError (snd (expandPlanTiers d))"
    by (auto simp: HasError_def)
  then have "resourceStripePlanCreate cl d = (snd (expandPlanTiers d), d, [])"
    by (simp add: resourceStripePlanCreate_def planCreateParams_tier_error)
  ultimately have c2: "\<exists>diags. ?err \<in> set diags \<and> resourceStripePlanCreate cl d = (diags, d, [])"
    by blast
  from price plan c1 c2 show ?thesis by simp
qed

theorem tier_up_to_conflicts_with_up_to_inf_witness:
  "tierAttr exPriceTierConflict 0 ''up_to'' = Some (VInt 10)
   \<and> tierAttr exPriceTierConflict 0 ''up_to_inf'' = Some (VBool True)
   \<and> expandPriceTier exPriceTierConflict 0 = (None, [Errorf ''up_to: conflicts with up_to_inf''])
   \<and> (\<exists>diags. Errorf ''up_to: conflicts with up_to_inf'' \<in> set diags
         \<and> resourceStripePriceCreate exEnv exClient exPriceTierConflict
             = (diags, exPriceTierConflict, []))
   \<and> tierAttr exPlanTierConflict 0 ''up_to'' = Some (VInt 10)
   \<and> tierAttr exPlanTierConflict 0 ''up_to_inf'' = Some (VBool True)
   \<and> expandPlanTier exPlanTierConflict 0 = (None, [Errorf ''up_to: conflicts with up_to_inf''])
   \<and> (\<exists>diags. Errorf ''up_to: conflicts with up_to_inf'' \<in> set diags
         \<and> resourceStripePlanCreate exClient exPlanTierConflict
             = (diags, exPlanTierConflict, []))"
proof -
  have a: "tierAttr exPriceTierConflict 0 ''up_to'' = Some (VInt 10)"
    by (simp add: tierAttr_def exPriceTierConflict_def)
  have b: "tierAttr exPriceTierConflict 0 ''up_to_inf'' = Some (VBool True)"
    by (simp add: tierAttr_def exPriceTierConflict_def)
  have a': "tierAttr exPlanTierConflict 0 ''up_to'' = Some (VInt 10)"
    by (simp add: tierAttr_def exPlanTierConflict_def)
  have b': "tierAttr exPlanTierConflict 0 ''up_to_inf'' = Some (VBool True)"
    by (simp add: tierAttr_def exPlanTierConflict_def)
  have z: "\<not> isZero (VInt 10)" by simp
  show ?thesis
    using a b a' b'
      tier_up_to_conflicts_with_up_to_inf [OF a z b, of exEnv exClient]
      tier_up_to_conflicts_with_up_to_inf [OF a' z b', of exEnv exClient]
    by simp
qed

text \<open>
  The claim as stated fails when \<open>up_to\<close> is set to zero: \<open>GetOk\<close> reports the zero value
  as not set, so a tier with \<open>up_to = 0\<close> and \<open>up_to_inf = true\<close> is expanded without an
  error and the create request is sent.
\<close>

theorem tier_zero_up_to_with_up_to_inf_is_expanded:
  "tierAttr exPriceTierZeroUpTo 0 ''up_to'' = Some (VInt 0)
   \<and> tierAttr exPriceTierZeroUpTo 0 ''up_to_inf'' = Some (VBool True)
   \<and> expandPriceTier exPriceTierZeroUpTo 0 =
       (Some \<lparr>PriceTierParams_FlatAmount = None, PriceTierParams_FlatAmountDecimal = None,
              PriceTierParams_UnitAmount = Some 100, PriceTierParams_UnitAmountDecimal = None,
              PriceTierParams_UpTo = None, PriceTierParams_UpToInf = Some True\<rparr>, [])
   \<and> fst (resourceStripePriceCreate exEnv exClient exPriceTierZeroUpTo) = []
   \<and> snd (snd (resourceStripePriceCreate exEnv exClient exPriceTierZeroUpTo)) =
       [PricesNew \<lparr>PriceParams_Active = Some True, PriceParams_BillingScheme = Some ''tiered'',
          PriceParams_Currency = Some ''usd'', PriceParams_Metadata = Some [],
          PriceParams_Nickname = None, PriceParams_Product = Some ''prod_1'',
          PriceParams_Recurring = None, PriceParams_TaxBehavior = Some ''unspecified'',
          PriceParams_Tiers =
            [Some \<lparr>PriceTierParams_FlatAmount = None, PriceTierParams_FlatAmountDecimal = None,
                   PriceTierParams_UnitAmount = Some 100,
                   PriceTierParams_UnitAmountDecimal = None,
                   PriceTierParams_UpTo = None, PriceTierParams_UpToInf = Some True\<rparr>],
          PriceParams_TiersMode = Some ''graduated'', PriceParams_UnitAmount = None,
          PriceParams_UnitAmountDecimal = None\<rparr>,
        PricesGet ''price_1'']"
proof -
  have t: "tierAttr exPriceTierZeroUpTo 0 = map_of [(''up_to'', VInt 0), (''up_to_inf'', VBool True),
                                  (''unit_amount'', VInt 100)]"
    by (rule ext) (simp add: tierAttr_def exPriceTierZeroUpTo_def)
  have x: "expandPriceTier exPriceTierZeroUpTo 0 =
       (Some \<lparr>PriceTierParams_FlatAmount = None, PriceTierParams_FlatAmountDecimal = None,
              PriceTierParams_UnitAmount = Some 100, PriceTierParams_UnitAmountDecimal = None,
              PriceTierParams_UpTo = None, PriceTierParams_UpToInf = Some True\<rparr>, [])"
    by (simp add: expandPriceTier_def Let_def GetOkTier_def GetOkExistsTier_def t nonZero_def
        emptyPriceTierParams_def)
  have ts: "expandPriceTiers exPriceTierZeroUpTo =
       ([Some \<lparr>PriceTierParams_FlatAmount = None, PriceTierParams_FlatAmountDecimal = None,
              PriceTierParams_UnitAmount = Some 100, PriceTierParams_UnitAmountDecimal = None,
              PriceTierParams_UpTo = None, PriceTierParams_UpToInf = Some True\<rparr>], [])"
    by (simp add: expandPriceTiers_def GetOk_def nonZero_def exPriceTierZeroUpTo_def x [unfolded exPriceTierZeroUpTo_def])
  have g: "GetOk exPriceTierZeroUpTo ''active'' = Some (VBool True)"
    "GetOk exPriceTierZeroUpTo ''nickname'' = None"
    "GetOk exPriceTierZeroUpTo ''tiers_mode'' = Some (VString ''graduated'')"
    "GetOk exPriceTierZeroUpTo ''product'' = Some (VString ''prod_1'')"
    "GetOk exPriceTierZeroUpTo ''recurring'' = None"
    "GetOkExists exPriceTierZeroUpTo ''unit_amount'' = None"
    "GetOkExists exPriceTierZeroUpTo ''unit_amount_decimal'' = None"
    "GetOk exPriceTierZeroUpTo ''billing_scheme'' = Some (VString ''tiered'')"
    "GetOk exPriceTierZeroUpTo ''tax_behavior'' = Some (VString ''unspecified'')"
    "GetString exPriceTierZeroUpTo ''currency'' = ''usd''"
    "expandMetadata exPriceTierZeroUpTo = []"
    by (simp_all add: GetOk_def GetOkExists_def GetString_def nonZero_def expandMetadata_def
        exPriceTierZeroUpTo_def)
  have p: "priceCreateParams exEnv exPriceTierZeroUpTo =
       Inr \<lparr>PriceParams_Active = Some True, PriceParams_BillingScheme = Some ''tiered'',
          PriceParams_Currency = Some ''usd'', PriceParams_Metadata = Some [],
          PriceParams_Nickname = None, PriceParams_Product = Some ''prod_1'',
          PriceParams_Recurring = None, PriceParams_TaxBehavior = Some ''unspecified'',
          PriceParams_Tiers =
            [Some \<lparr>PriceTierParams_FlatAmount = None, PriceTierParams_FlatAmountDecimal = None,
                   PriceTierParams_UnitAmount = Some 100,
                   PriceTierParams_UnitAmountDecimal = None,
                   PriceTierParams_UpTo = None, PriceTierParams_UpToInf = Some True\<rparr>],
          PriceParams_TiersMode = Some ''graduated'', PriceParams_UnitAmount = None,
          PriceParams_UnitAmountDecimal = None\<rparr>"
    by (simp add: priceCreateParams_def Let_def ts g HasError_def emptyPriceParams_def)
  have r: "fst (resourceStripePriceCreate exEnv exClient exPriceTierZeroUpTo) = []"
    "snd (snd (resourceStripePriceCreate exEnv exClient exPriceTierZeroUpTo)) =
       [PricesNew \<lparr>PriceParams_Active = Some True, PriceParams_BillingScheme = Some ''tiered'',
          PriceParams_Currency = Some ''usd'', PriceParams_Metadata = Some [],
          PriceParams_Nickname = None, PriceParams_Product = Some ''prod_1'',
          PriceParams_Recurring = None, PriceParams_TaxBehavior = Some ''unspecified'',
          PriceParams_Tiers =
            [Some \<lparr>PriceTierParams_FlatAmount = None, PriceTierParams_FlatAmountDecimal = None,
                   PriceTierParams_UnitAmount = Some 100,
                   PriceTierParams_UnitAmountDecimal = None,
                   PriceTierParams_UpTo = None, PriceTierParams_UpToInf = Some True\<rparr>],
          PriceParams_TiersMode = Some ''graduated'', PriceParams_UnitAmount = None,
          PriceParams_UnitAmountDecimal = None\<rparr>,
        PricesGet ''price_1'']"
    by (simp_all add: resourceStripePriceCreate_def p resourceStripePriceRead_def exClient_def
        SetId_def exPrice_def)
  show ?thesis using x r by (simp add: t)
qed

subsection \<open>The fields of the create requests\<close>




lemma expandPriceTier_no_diag:
  assumes "snd (expandPriceTier d idx) = []"
  shows "\<not> (GetOkTier d idx ''up_to'' \<noteq> None \<and> GetOkExistsTier d idx ''up_to_inf'' \<noteq> None)"
proof
  assume "GetOkTier d idx ''up_to'' \<noteq> None \<and> GetOkExistsTier d idx ''up_to_inf'' \<noteq> None"
  then have "expandPriceTier d idx = (None, [Errorf ''up_to: conflicts with up_to_inf''])"
    by (simp add: expandPriceTier_conflict)
  with assms show False by simp
qed



subsection \<open>The create request that is sent is the one that was built\<close>




lemma resourceStripePlanCreate_sent:
  assumes "PlansNew params \<in> set (snd (snd (resourceStripePlanCreate cl d)))"
  shows "planCreateParams d = Inr params"
proof (cases "planCreateParams d")
  case (Inl diags)
  with assms show ?thesis by (simp add: resourceStripePlanCreate_def)
next
  case (Inr p)
  with assms show ?thesis
    by (cases "Plans_New cl p") (simp_all add: resourceStripePlanCreate_def)
qed




subsection \<open>Which optional fields a create request carries\<close>




text \<open>
  The statement above is about the price and the coupon only. The tier of a plan reads
  its amounts with \<open>GetOk\<close> where the tier of a price uses \<open>GetOkExists\<close>: on the same
  tier, whose flat amount is set to zero, the tier of the plan's request carries no flat
  amount and the tier of the price's request carries the zero.
\<close>

lemma plan_tier_zero_flat_amount_not_sent:
  "tierAttr exPlanTierFree 0 ''flat_amount'' = Some (VInt 0)
   \<and> expandPlanTier exPlanTierFree 0 =
       (Some \<lparr>PlanTierParams_FlatAmount = None, PlanTierParams_FlatAmountDecimal = None,
              PlanTierParams_UnitAmount = Some 100, PlanTierParams_UnitAmountDecimal = None,
              PlanTierParams_UpTo = Some 10, PlanTierParams_UpToInf = None\<rparr>, [])
   \<and> expandPriceTier exPlanTierFree 0 =
       (Some \<lparr>PriceTierParams_FlatAmount = Some 0, PriceTierParams_FlatAmountDecimal = None,
              PriceTierParams_UnitAmount = Some 100, PriceTierParams_UnitAmountDecimal = None,
              PriceTierParams_UpTo = Some 10, PriceTierParams_UpToInf = None\<rparr>, [])"
proof -
  have t: "tierAttr exPlanTierFree 0 =
      map_of [(''up_to'', VInt 10), (''flat_amount'', VInt 0), (''unit_amount'', VInt 100)]"
    by (rule ext) (simp add: tierAttr_def exPlanTierFree_def)
  have "expandPlanTier exPlanTierFree 0 =
       (Some \<lparr>PlanTierParams_FlatAmount = None, PlanTierParams_FlatAmountDecimal = None,
              PlanTierParams_UnitAmount = Some 100, PlanTierParams_UnitAmountDecimal = None,
              PlanTierParams_UpTo = Some 10, PlanTierParams_UpToInf = None\<rparr>, [])"
    by (subst expandPlanTier_ok) (simp_all add: GetOkTier_def GetOkExistsTier_def t nonZero_def)
  moreover have "expandPriceTier exPlanTierFree 0 =
       (Some \<lparr>PriceTierParams_FlatAmount = Some 0, PriceTierParams_FlatAmountDecimal = None,
              PriceTierParams_UnitAmount = Some 100, PriceTierParams_UnitAmountDecimal = None,
              PriceTierParams_UpTo = Some 10, PriceTierParams_UpToInf = None\<rparr>, [])"
    by (subst expandPriceTier_ok) (simp_all add: GetOkTier_def GetOkExistsTier_def t nonZero_def)
  ultimately show ?thesis by (simp add: t)
qed

subsection \<open>The amounts of a plan's create request\<close>

lemmas plan_sel =
  sel_ifOk [of PlanParams_Amount] sel_ifTrue [of PlanParams_Amount]
  sel_ifOk [of PlanParams_AmountDecimal] sel_ifTrue [of PlanParams_AmountDecimal]
  sel_ifOk [of PlanParams_Tiers] sel_ifTrue [of PlanParams_Tiers]
  case_option_const emptyPlanParams_def

lemma planCreateParams_Inr_fields:
  "\<forall>params. planCreateParams d = Inr params \<longrightarrow>
     snd (expandPlanTiers d) = []
     \<and> PlanParams_Tiers params = fst (expandPlanTiers d)
     \<and> PlanParams_Amount params =
         (if GetOk d ''billing_scheme'' = Some (VString ''tiered'') then None
          else if GetFloat d ''amount_decimal'' > 0 then None
          else Some (GetInt d ''amount''))
     \<and> PlanParams_AmountDecimal params =
         (if GetOk d ''billing_scheme'' = Some (VString ''tiered'') then None
          else if GetFloat d ''amount_decimal'' > 0 then Some (GetFloat d ''amount_decimal'')
          else None)"
  apply (cases "expandPlanTiers d"; cases "GetOk d ''billing_scheme''";
         cases "GetFloat d ''amount_decimal'' > 0")
  apply (auto simp add: planCreateParams_def Let_def plan_sel HasError_def
      cong: option.case_cong if_cong split: if_splits)
  done

lemma planCreateParams_Inr_ex:
  "snd (expandPlanTiers d) = [] \<Longrightarrow> \<exists>params. planCreateParams d = Inr params"
  by (cases "expandPlanTiers d") (simp add: planCreateParams_def Let_def HasError_def)

lemma resourceStripePlanCreate_sends:
  assumes "planCreateParams d = Inr params"
  shows "snd (snd (resourceStripePlanCreate cl d)) = [PlansNew params]"
  using assms by (cases "Plans_New cl params") (simp_all add: resourceStripePlanCreate_def)

lemma expandPlanTiers_nth:
  assumes "snd (expandPlanTiers d) = []" and "idx < length (fst (expandPlanTiers d))"
  shows "fst (expandPlanTiers d) ! idx = fst (expandPlanTier d idx)
     \<and> snd (expandPlanTier d idx) = []"
proof (cases "GetOk d ''tier''")
  case None
  with assms(2) show ?thesis by (simp add: expandPlanTiers_def)
next
  case (Some v)
  then have f: "fst (expandPlanTiers d) =
      map (\<lambda>i. fst (expandPlanTier d i)) [0 ..< length (objsOf v)]"
    and s: "snd (expandPlanTiers d) =
      concat (map (\<lambda>i. snd (expandPlanTier d i)) [0 ..< length (objsOf v)])"
    by (simp_all add: expandPlanTiers_def expandPlanTiersLoop_fst expandPlanTiersLoop_snd)
  from assms(2) f have i: "idx < length (objsOf v)" by simp
  with f have "fst (expandPlanTiers d) ! idx = fst (expandPlanTier d idx)" by simp
  moreover from assms(1) s i have "snd (expandPlanTier d idx) = []" by simp
  ultimately show ?thesis by simp
qed

lemma expandPlanTier_no_diag:
  assumes "snd (expandPlanTier d idx) = []"
  shows "\<not> (GetOkTier d idx ''up_to'' \<noteq> None \<and> GetOkExistsTier d idx ''up_to_inf'' \<noteq> None)"
proof
  assume "GetOkTier d idx ''up_to'' \<noteq> None \<and> GetOkExistsTier d idx ''up_to_inf'' \<noteq> None"
  then have "expandPlanTier d idx = (None, [Errorf ''up_to: conflicts with up_to_inf''])"
    by (simp add: expandPlanTier_conflict)
  with assms show False by simp
qed

text \<open>
  C5, as amended. In every create request of a plan at most one of \<open>Amount\<close> and
  \<open>AmountDecimal\<close> is set; exactly one of them is set unless \<open>billing_scheme\<close> is \<open>tiered\<close>,
  and then neither is. In each of its tiers at most one of the flat amount and its
  decimal form, and at most one of the unit amount and its decimal form, is set.
\<close>

theorem plan_create_amounts:
  "\<forall>params. PlansNew params \<in> set (snd (snd (resourceStripePlanCreate cl d))) \<longrightarrow>
     \<not> (PlanParams_Amount params \<noteq> None \<and> PlanParams_AmountDecimal params \<noteq> None)
     \<and> (attrs d ''billing_scheme'' \<noteq> Some (VString ''tiered'') \<longrightarrow>
          (PlanParams_Amount params = None) \<noteq> (PlanParams_AmountDecimal params = None))
     \<and> (attrs d ''billing_scheme'' = Some (VString ''tiered'') \<longrightarrow>
          PlanParams_Amount params = None \<and> PlanParams_AmountDecimal params = None)
     \<and> (\<forall>idx. idx < length (PlanParams_Tiers params) \<longrightarrow>
          (\<exists>tier. PlanParams_Tiers params ! idx = Some tier
             \<and> \<not> (PlanTierParams_FlatAmount tier \<noteq> None
                   \<and> PlanTierParams_FlatAmountDecimal tier \<noteq> None)
             \<and> \<not> (PlanTierParams_UnitAmount tier \<noteq> None
                   \<and> PlanTierParams_UnitAmountDecimal tier \<noteq> None)))"
proof (intro allI impI)
  fix params
  assume "PlansNew params \<in> set (snd (snd (resourceStripePlanCreate cl d)))"
  then have p: "planCreateParams d = Inr params"
    by (rule resourceStripePlanCreate_sent)
  note f = planCreateParams_Inr_fields [rule_format, OF p]
  have t: "GetOk d ''billing_scheme'' = Some (VString ''tiered'')
      \<longleftrightarrow> attrs d ''billing_scheme'' = Some (VString ''tiered'')"
    by (auto simp: GetOk_def nonZero_eq_Some)
  have a: "\<not> (PlanParams_Amount params \<noteq> None \<and> PlanParams_AmountDecimal params \<noteq> None)"
    using f by simp
  have b: "attrs d ''billing_scheme'' \<noteq> Some (VString ''tiered'') \<longrightarrow>
          (PlanParams_Amount params = None) \<noteq> (PlanParams_AmountDecimal params = None)"
    using f by (simp add: t)
  have c: "attrs d ''billing_scheme'' = Some (VString ''tiered'') \<longrightarrow>
          PlanParams_Amount params = None \<and> PlanParams_AmountDecimal params = None"
    using f by (simp add: t)
  have e: "\<forall>idx. idx < length (PlanParams_Tiers params) \<longrightarrow>
          (\<exists>tier. PlanParams_Tiers params ! idx = Some tier
             \<and> \<not> (PlanTierParams_FlatAmount tier \<noteq> None
                   \<and> PlanTierParams_FlatAmountDecimal tier \<noteq> None)
             \<and> \<not> (PlanTierParams_UnitAmount tier \<noteq> None
                   \<and> PlanTierParams_UnitAmountDecimal tier \<noteq> None))"
  proof (intro allI impI)
    fix idx
    assume "idx < length (PlanParams_Tiers params)"
    with f have i: "idx < length (fst (expandPlanTiers d))" and s: "snd (expandPlanTiers d) = []"
      by simp_all
    from expandPlanTiers_nth [OF s i]
    have n: "PlanParams_Tiers params ! idx = fst (expandPlanTier d idx)"
      and g: "snd (expandPlanTier d idx) = []"
      using f by simp_all
    note ok = expandPlanTier_ok [OF expandPlanTier_no_diag [OF g]]
    show "\<exists>tier. PlanParams_Tiers params ! idx = Some tier
             \<and> \<not> (PlanTierParams_FlatAmount tier \<noteq> None
                   \<and> PlanTierParams_FlatAmountDecimal tier \<noteq> None)
             \<and> \<not> (PlanTierParams_UnitAmount tier \<noteq> None
                   \<and> PlanTierParams_UnitAmountDecimal tier \<noteq> None)"
      by (auto simp add: n ok split: option.splits)
  qed
  from a b c e show
    "\<not> (PlanParams_Amount params \<noteq> None \<and> PlanParams_AmountDecimal params \<noteq> None)
     \<and> (attrs d ''billing_scheme'' \<noteq> Some (VString ''tiered'') \<longrightarrow>
          (PlanParams_Amount params = None) \<noteq> (PlanParams_AmountDecimal params = None))
     \<and> (attrs d ''billing_scheme'' = Some (VString ''tiered'') \<longrightarrow>
          PlanParams_Amount params = None \<and> PlanParams_AmountDecimal params = None)
     \<and> (\<forall>idx. idx < length (PlanParams_Tiers params) \<longrightarrow>
          (\<exists>tier. PlanParams_Tiers params ! idx = Some tier
             \<and> \<not> (PlanTierParams_FlatAmount tier \<noteq> None
                   \<and> PlanTierParams_FlatAmountDecimal tier \<noteq> None)
             \<and> \<not> (PlanTierParams_UnitAmount tier \<noteq> None
                   \<and> PlanTierParams_UnitAmountDecimal tier \<noteq> None)))"
    by blast
qed

theorem plan_create_amounts_witness:
  "(\<exists>params. snd (snd (resourceStripePlanCreate exClient exPlanFlat)) = [PlansNew params]
      \<and> PlanParams_Amount params = Some 500
      \<and> PlanParams_AmountDecimal params = None)
   \<and> (\<exists>params. snd (snd (resourceStripePlanCreate exClient exPlanTiered)) = [PlansNew params]
      \<and> PlanParams_Amount params = None
      \<and> PlanParams_AmountDecimal params = None
      \<and> (\<exists>tier. PlanParams_Tiers params ! 0 = Some tier
            \<and> PlanTierParams_UnitAmount tier = Some 100
            \<and> PlanTierParams_UnitAmountDecimal tier = None))"
proof -
  have s1: "snd (expandPlanTiers exPlanFlat) = []"
    by (simp add: expandPlanTiers_def GetOk_def nonZero_def exPlanFlat_def)
  obtain p where p: "planCreateParams exPlanFlat = Inr p"
    using planCreateParams_Inr_ex [OF s1] by blast
  have c1: "snd (snd (resourceStripePlanCreate exClient exPlanFlat)) = [PlansNew p]"
    using p by (rule resourceStripePlanCreate_sends)
  then have m1: "PlansNew p \<in> set (snd (snd (resourceStripePlanCreate exClient exPlanFlat)))"
    by simp
  note T1 = plan_create_amounts [of exClient exPlanFlat, rule_format, OF m1]
  have a1: "PlanParams_Amount p = Some 500"
    using planCreateParams_Inr_fields [rule_format, OF p]
    by (simp add: GetOk_def nonZero_def GetFloat_def GetInt_def exPlanFlat_def)
  have b1: "PlanParams_AmountDecimal p = None"
    using T1 a1 by simp
  have t0: "tierAttr exPlanTiered 0 = map_of [(''up_to'', VInt 10), (''unit_amount'', VInt 100)]"
    by (rule ext) (simp add: tierAttr_def exPlanTiered_def)
  have t1: "tierAttr exPlanTiered (Suc 0) =
      map_of [(''up_to_inf'', VBool True), (''unit_amount'', VInt 50)]"
    by (rule ext) (simp add: tierAttr_def exPlanTiered_def)
  have e0: "expandPlanTier exPlanTiered 0 =
      (Some \<lparr>PlanTierParams_FlatAmount = None, PlanTierParams_FlatAmountDecimal = None,
             PlanTierParams_UnitAmount = Some 100, PlanTierParams_UnitAmountDecimal = None,
             PlanTierParams_UpTo = Some 10, PlanTierParams_UpToInf = None\<rparr>, [])"
    by (subst expandPlanTier_ok) (simp_all add: GetOkTier_def GetOkExistsTier_def t0 nonZero_def)
  have e1: "snd (expandPlanTier exPlanTiered (Suc 0)) = []"
    by (subst expandPlanTier_ok) (simp_all add: GetOkTier_def GetOkExistsTier_def t1 nonZero_def)
  have g: "GetOk exPlanTiered ''tier'' =
      Some (VObjs [[(''up_to'', VInt 10), (''unit_amount'', VInt 100)],
                   [(''up_to_inf'', VBool True), (''unit_amount'', VInt 50)]])"
    by (simp add: GetOk_def nonZero_def exPlanTiered_def)
  have u: "[0 ..< 2] = [0, Suc 0]" by (simp add: upt_rec)
  have s2: "snd (expandPlanTiers exPlanTiered) = []"
    by (simp add: expandPlanTiers_def g expandPlanTiersLoop_snd u e0 e1
        del: expandPlanTiersLoop.simps)
  have f2: "fst (expandPlanTiers exPlanTiered) ! 0 = fst (expandPlanTier exPlanTiered 0)"
    "0 < length (fst (expandPlanTiers exPlanTiered))"
    by (simp_all add: expandPlanTiers_def g expandPlanTiersLoop_fst u
        del: expandPlanTiersLoop.simps)
  obtain q where q: "planCreateParams exPlanTiered = Inr q"
    using planCreateParams_Inr_ex [OF s2] by blast
  have c2: "snd (snd (resourceStripePlanCreate exClient exPlanTiered)) = [PlansNew q]"
    using q by (rule resourceStripePlanCreate_sends)
  then have m2: "PlansNew q \<in> set (snd (snd (resourceStripePlanCreate exClient exPlanTiered)))"
    by simp
  note T2 = plan_create_amounts [of exClient exPlanTiered, rule_format, OF m2]
  have bs: "attrs exPlanTiered ''billing_scheme'' = Some (VString ''tiered'')"
    by (simp add: exPlanTiered_def)
  have a2: "PlanParams_Amount q = None" "PlanParams_AmountDecimal q = None"
    using T2 bs by simp_all
  have n: "PlanParams_Tiers q ! 0 = fst (expandPlanTier exPlanTiered 0)"
    using planCreateParams_Inr_fields [rule_format, OF q] f2 by simp
  have d2: "\<exists>tier. PlanParams_Tiers q ! 0 = Some tier
            \<and> PlanTierParams_UnitAmount tier = Some 100
            \<and> PlanTierParams_UnitAmountDecimal tier = None"
    by (simp add: n e0)
  from c1 a1 b1 c2 a2 d2 show ?thesis by blast
qed

text \<open>
  The claim as stated fails: for a plan whose \<open>billing_scheme\<close> is \<open>tiered\<close> the create
  request carries neither \<open>Amount\<close> nor \<open>AmountDecimal\<close>, and a tier that sets no flat
  amount carries neither form of it.
\<close>

theorem plan_create_tiered_has_no_amount:
  "snd (snd (resourceStripePlanCreate exClient exPlanTiered)) =
     [PlansNew \<lparr>PlanParams_Active = Some True, PlanParams_AggregateUsage = None,
        PlanParams_Amount = None, PlanParams_AmountDecimal = None,
        PlanParams_BillingScheme = Some ''tiered'', PlanParams_Currency = Some ''usd'',
        PlanParams_ID = None, PlanParams_Interval = Some ''month'',
        PlanParams_IntervalCount = Some 1, PlanParams_Metadata = Some [],
        PlanParams_Nickname = None, PlanParams_ProductID = Some ''prod_1'',
        PlanParams_Tiers =
          [Some \<lparr>PlanTierParams_FlatAmount = None, PlanTierParams_FlatAmountDecimal = None,
                 PlanTierParams_UnitAmount = Some 100, PlanTierParams_UnitAmountDecimal = None,
                 PlanTierParams_UpTo = Some 10, PlanTierParams_UpToInf = None\<rparr>,
           Some \<lparr>PlanTierParams_FlatAmount = None, PlanTierParams_FlatAmountDecimal = None,
                 PlanTierParams_UnitAmount = Some 50, PlanTierParams_UnitAmountDecimal = None,
                 PlanTierParams_UpTo = None, PlanTierParams_UpToInf = Some True\<rparr>],
        PlanParams_TiersMode = Some ''graduated'', PlanParams_TransformUsage = None,
        PlanParams_TrialPeriodDays = None, PlanParams_UsageType = Some ''licensed''\<rparr>]"
proof -
  have t0: "tierAttr exPlanTiered 0 = map_of [(''up_to'', VInt 10), (''unit_amount'', VInt 100)]"
    by (rule ext) (simp add: tierAttr_def exPlanTiered_def)
  have t1: "tierAttr exPlanTiered (Suc 0) =
      map_of [(''up_to_inf'', VBool True), (''unit_amount'', VInt 50)]"
    by (rule ext) (simp add: tierAttr_def exPlanTiered_def)
  have e0: "expandPlanTier exPlanTiered 0 =
      (Some \<lparr>PlanTierParams_FlatAmount = None, PlanTierParams_FlatAmountDecimal = None,
             PlanTierParams_UnitAmount = Some 100, PlanTierParams_UnitAmountDecimal = None,
             PlanTierParams_UpTo = Some 10, PlanTierParams_UpToInf = None\<rparr>, [])"
    by (subst expandPlanTier_ok) (simp_all add: GetOkTier_def GetOkExistsTier_def t0 nonZero_def)
  have e1: "expandPlanTier exPlanTiered (Suc 0) =
      (Some \<lparr>PlanTierParams_FlatAmount = None, PlanTierParams_FlatAmountDecimal = None,
             PlanTierParams_UnitAmount = Some 50, PlanTierParams_UnitAmountDecimal = None,
             PlanTierParams_UpTo = None, PlanTierParams_UpToInf = Some True\<rparr>, [])"
    by (subst expandPlanTier_ok) (simp_all add: GetOkTier_def GetOkExistsTier_def t1 nonZero_def)
  have g: "GetOk exPlanTiered ''tier'' =
      Some (VObjs [[(''up_to'', VInt 10), (''unit_amount'', VInt 100)],
                   [(''up_to_inf'', VBool True), (''unit_amount'', VInt 50)]])"
    by (simp add: GetOk_def nonZero_def exPlanTiered_def)
  have u: "[0 ..< 2] = [0, Suc 0]" by (simp add: upt_rec)
  have ts: "expandPlanTiers exPlanTiered =
      ([fst (expandPlanTier exPlanTiered 0), fst (expandPlanTier exPlanTiered (Suc 0))], [])"
    by (simp add: expandPlanTiers_def g u e0 e1)
  have k: "GetOk exPlanTiered ''plan_id'' = None"
    "GetOk exPlanTiered ''active'' = Some (VBool True)"
    "GetOk exPlanTiered ''aggregate_usage'' = None"
    "GetOk exPlanTiered ''billing_scheme'' = Some (VString ''tiered'')"
    "GetOk exPlanTiered ''interval_count'' = Some (VInt 1)"
    "GetOk exPlanTiered ''nickname'' = None"
    "GetOk exPlanTiered ''tiers_mode'' = Some (VString ''graduated'')"
    "GetOk exPlanTiered ''transform_usage'' = None"
    "GetOk exPlanTiered ''trial_period_days'' = None"
    "GetOk exPlanTiered ''usage_type'' = Some (VString ''licensed'')"
    "GetString exPlanTiered ''interval'' = ''month''"
    "GetString exPlanTiered ''currency'' = ''usd''"
    "GetString exPlanTiered ''product'' = ''prod_1''"
    "GetInt exPlanTiered ''amount'' = 0" "GetFloat exPlanTiered ''amount_decimal'' = 0"
    "expandMetadata exPlanTiered = []"
    by (simp_all add: GetOk_def GetString_def GetInt_def GetFloat_def nonZero_def
        expandMetadata_def exPlanTiered_def)
  have p: "planCreateParams exPlanTiered =
     Inr \<lparr>PlanParams_Active = Some True, PlanParams_AggregateUsage = None,
        PlanParams_Amount = None, PlanParams_AmountDecimal = None,
        PlanParams_BillingScheme = Some ''tiered'', PlanParams_Currency = Some ''usd'',
        PlanParams_ID = None, PlanParams_Interval = Some ''month'',
        PlanParams_IntervalCount = Some 1, PlanParams_Metadata = Some [],
        PlanParams_Nickname = None, PlanParams_ProductID = Some ''prod_1'',
        PlanParams_Tiers =
          [Some \<lparr>PlanTierParams_FlatAmount = None, PlanTierParams_FlatAmountDecimal = None,
                 PlanTierParams_UnitAmount = Some 100, PlanTierParams_UnitAmountDecimal = None,
                 PlanTierParams_UpTo = Some 10, PlanTierParams_UpToInf = None\<rparr>,
           Some \<lparr>PlanTierParams_FlatAmount = None, PlanTierParams_FlatAmountDecimal = None,
                 PlanTierParams_UnitAmount = Some 50, PlanTierParams_UnitAmountDecimal = None,
                 PlanTierParams_UpTo = None, PlanTierParams_UpToInf = Some True\<rparr>],
        PlanParams_TiersMode = Some ''graduated'', PlanParams_TransformUsage = None,
        PlanParams_TrialPeriodDays = None, PlanParams_UsageType = Some ''licensed''\<rparr>"
    by (simp add: planCreateParams_def Let_def ts k e0 e1 HasError_def emptyPlanParams_def)
  show ?thesis
    by (rule resourceStripePlanCreate_sends) (rule p)
qed

subsection \<open>Deleting a price and deleting a plan\<close>

text \<open>
  C4, as amended. Deleting a price makes exactly one remote call, the partial update
  whose only field is \<open>active = false\<close>, and so no hard delete; deleting a plan makes
  exactly one remote call, the hard delete \<open>Plans.Del\<close>. Either operation clears the id
  of the resource when its call succeeds, and returns the error of the client, with the
  resource data as it was, when the call fails.
\<close>

theorem delete_price_deactivates_and_plan_deletes:
  "snd (snd (resourceStripePriceDelete cl d)) =
     [PricesUpdate (Id d)
        \<lparr>PriceParams_Active = Some False, PriceParams_BillingScheme = None,
         PriceParams_Currency = None, PriceParams_Metadata = None,
         PriceParams_Nickname = None, PriceParams_Product = None,
         PriceParams_Recurring = None, PriceParams_TaxBehavior = None,
         PriceParams_Tiers = [], PriceParams_TiersMode = None,
         PriceParams_UnitAmount = None, PriceParams_UnitAmountDecimal = None\<rparr>]
   \<and> filter isDel (snd (snd (resourceStripePriceDelete cl d))) = []
   \<and> (fst (resourceStripePriceDelete cl d) = [] \<longrightarrow>
        fst (snd (resourceStripePriceDelete cl d)) = d\<lparr>Id := []\<rparr>)
   \<and> (fst (resourceStripePriceDelete cl d) \<noteq> [] \<longrightarrow>
        fst (snd (resourceStripePriceDelete cl d)) = d)
   \<and> snd (snd (resourceStripePlanDelete cl d)) = [PlansDel (Id d)]
   \<and> (fst (resourceStripePlanDelete cl d) = [] \<longrightarrow>
        fst (snd (resourceStripePlanDelete cl d)) = d\<lparr>Id := []\<rparr>)
   \<and> (fst (resourceStripePlanDelete cl d) \<noteq> [] \<longrightarrow>
        fst (snd (resourceStripePlanDelete cl d)) = d)"
proof -
  let ?p = "emptyPriceParams\<lparr>PriceParams_Active := Some False\<rparr>"
  have price: "snd (snd (resourceStripePriceDelete cl d)) = [PricesUpdate (Id d) ?p]
      \<and> (fst (resourceStripePriceDelete cl d) = [] \<longrightarrow>
           fst (snd (resourceStripePriceDelete cl d)) = d\<lparr>Id := []\<rparr>)
      \<and> (fst (resourceStripePriceDelete cl d) \<noteq> [] \<longrightarrow>
           fst (snd (resourceStripePriceDelete cl d)) = d)"
    by (cases "Prices_Update cl (Id d) ?p")
      (simp_all add: resourceStripePriceDelete_def Let_def SetId_def)
  have plan: "snd (snd (resourceStripePlanDelete cl d)) = [PlansDel (Id d)]
      \<and> (fst (resourceStripePlanDelete cl d) = [] \<longrightarrow>
           fst (snd (resourceStripePlanDelete cl d)) = d\<lparr>Id := []\<rparr>)
      \<and> (fst (resourceStripePlanDelete cl d) \<noteq> [] \<longrightarrow>
           fst (snd (resourceStripePlanDelete cl d)) = d)"
    by (cases "Plans_Del cl (Id d)")
      (simp_all add: resourceStripePlanDelete_def SetId_def)
  from price have "filter isDel (snd (snd (resourceStripePriceDelete cl d))) = []"
    by simp
  with price plan show ?thesis
    by (simp add: emptyPriceParams_def)
qed

theorem delete_price_deactivates_and_plan_deletes_witness:
  "fst (resourceStripePriceDelete exClient exPriceState) = []
   \<and> Id (fst (snd (resourceStripePriceDelete exClient exPriceState))) = []
   \<and> fst (resourceStripePlanDelete exClient exPlanState) = []
   \<and> Id (fst (snd (resourceStripePlanDelete exClient exPlanState))) = []"
proof -
  have a: "fst (resourceStripePriceDelete exClient exPriceState) = []"
    by (simp add: resourceStripePriceDelete_def Let_def exClient_def)
  have b: "fst (resourceStripePlanDelete exClient exPlanState) = []"
    by (simp add: resourceStripePlanDelete_def exClient_def)
  show ?thesis
    using a b
      delete_price_deactivates_and_plan_deletes [of exClient exPriceState]
      delete_price_deactivates_and_plan_deletes [of exClient exPlanState]
    by simp
qed

text \<open>
  The claim as stated fails for the plan: its delete issues the hard remote delete.
\<close>

theorem plan_delete_is_a_hard_delete:
  "snd (snd (resourceStripePlanDelete exClient exPlanState)) = [PlansDel ''plan_1'']
   \<and> isDel (PlansDel ''plan_1'')"
  by (simp add: resourceStripePlanDelete_def exClient_def exPlanState_def)

subsection \<open>Reading a coupon and a price\<close>

text \<open>
  An attribute other than the one that is set keeps its value, and a bool handed to the
  integer attribute \<open>created\<close> of a coupon, or to the map attribute \<open>recurring\<close> of a
  price, is not written.
\<close>

lemma Set_attrs_other:
  "k' \<noteq> k \<Longrightarrow> attrs (Set schema k v d) k' = attrs d k'"
  by (simp add: Set_def split: option.splits)

lemma Set_created_bool:
  "Set resourceStripeCoupon ''created'' (VBool b) d = d"
  by (simp add: Set_def resourceStripeCoupon_def WriteField_def)

lemma Set_recurring_bool:
  "Set resourceStripePrice ''recurring'' (VBool b) d = d"
  by (simp add: Set_def resourceStripePrice_def WriteField_def setMap_def)

text \<open>
  Whatever the server returns, reading a coupon leaves \<open>created\<close> as it was, and reading
  a price leaves \<open>recurring\<close> as it was.
\<close>

lemma resourceStripeCouponRead_created:
  "attrs (fst (snd (resourceStripeCouponRead cl d))) ''created'' = attrs d ''created''"
  by (cases "Coupons_Get cl (Id d)")
    (simp_all add: resourceStripeCouponRead_def Set_created_bool Set_attrs_other)

lemma resourceStripePriceRead_recurring:
  "attrs (fst (snd (resourceStripePriceRead cl d))) ''recurring'' = attrs d ''recurring''"
proof (cases "Prices_Get cl (Id d)")
  case (Inl err)
  then show ?thesis by (simp add: resourceStripePriceRead_def)
next
  case (Inr price)
  then show ?thesis
    by (cases "Price_Product price")
      (simp_all add: resourceStripePriceRead_def Set_recurring_bool Set_attrs_other)
qed

text \<open>
  C1. The claim that Read gives every local field the server's value of that same
  field fails on the code. Reading a coupon hands \<open>created\<close> the value of \<open>coupon.Valid\<close>,
  a bool that the integer attribute does not accept: the read reports no error, \<open>valid\<close>
  holds the server's value, and \<open>created\<close> is still unset and not the created timestamp
  of the server. Reading a price hands \<open>recurring\<close> the value of \<open>price.Active\<close>, a bool
  that the map attribute does not accept: \<open>active\<close> holds the server's value, and
  \<open>recurring\<close> is still unset although the server holds recurring data.
\<close>

theorem read_leaves_created_and_recurring_unset:
  "fst (resourceStripeCouponRead exClient exCouponState) = []
   \<and> attrs (fst (snd (resourceStripeCouponRead exClient exCouponState))) ''valid''
       = Some (VBool (Coupon_Valid exCoupon))
   \<and> attrs (fst (snd (resourceStripeCouponRead exClient exCouponState))) ''created'' = None
   \<and> attrs (fst (snd (resourceStripeCouponRead exClient exCouponState))) ''created''
       \<noteq> Some (VInt (Coupon_Created exCoupon))
   \<and> Coupon_Created exCoupon = 1600000000
   \<and> fst (resourceStripePriceRead exClient exPriceState) = []
   \<and> attrs (fst (snd (resourceStripePriceRead exClient exPriceState))) ''active''
       = Some (VBool (Price_Active exPrice))
   \<and> attrs (fst (snd (resourceStripePriceRead exClient exPriceState))) ''recurring'' = None
   \<and> Price_Recurring exPrice = Some exRecurring"
proof -
  have c: "Coupons_Get exClient (Id exCouponState) = Inr exCoupon"
    and p: "Prices_Get exClient (Id exPriceState) = Inr exPrice"
    by (simp_all add: exClient_def)
  have v: "Set resourceStripeCoupon ''valid'' (VBool b) d
      = d\<lparr>attrs := (attrs d)(''valid'' \<mapsto> VBool b)\<rparr>" for b d
    by (simp add: Set_def resourceStripeCoupon_def WriteField_def)
  have a: "Set resourceStripePrice ''active'' (VBool b) d
      = d\<lparr>attrs := (attrs d)(''active'' \<mapsto> VBool b)\<rparr>" for b d
    by (simp add: Set_def resourceStripePrice_def WriteField_def)
  have c1: "fst (resourceStripeCouponRead exClient exCouponState) = []"
    by (simp add: resourceStripeCouponRead_def c)
  have c2: "attrs (fst (snd (resourceStripeCouponRead exClient exCouponState))) ''valid''
       = Some (VBool (Coupon_Valid exCoupon))"
    by (simp add: resourceStripeCouponRead_def c Set_created_bool v)
  have c3: "attrs (fst (snd (resourceStripeCouponRead exClient exCouponState))) ''created'' = None"
    by (simp add: resourceStripeCouponRead_created exCouponState_def)
  have c4: "Coupon_Created exCoupon = 1600000000"
    by (simp add: exCoupon_def)
  have p1: "fst (resourceStripePriceRead exClient exPriceState) = []"
    by (simp add: resourceStripePriceRead_def p)
  have pp: "Price_Product exPrice = Some ''prod_1''"
    and pr: "Price_Recurring exPrice = Some exRecurring"
    by (simp_all add: exPrice_def)
  have p2: "attrs (fst (snd (resourceStripePriceRead exClient exPriceState))) ''active''
       = Some (VBool (Price_Active exPrice))"
    by (simp add: resourceStripePriceRead_def p pp Set_attrs_other a)
  have p3: "attrs (fst (snd (resourceStripePriceRead exClient exPriceState))) ''recurring'' = None"
    by (simp add: resourceStripePriceRead_recurring exPriceState_def)
  from c1 c2 c3 c4 p1 p2 p3 pr show ?thesis by simp
qed

subsection \<open>The update requests of a tax rate and of a coupon\<close>

text \<open>
  The update request of a coupon holds the metadata exactly when the metadata has a
  change and the name exactly when the name has a change, and nothing else.
\<close>

lemma couponUpdateParams_fields:
  "couponUpdateParams d =
     \<lparr>CouponParams_ID = None, CouponParams_AmountOff = None, CouponParams_Currency = None,
      CouponParams_Duration = None, CouponParams_DurationInMonths = None,
      CouponParams_MaxRedemptions = None,
      CouponParams_Metadata =
        (if HasChange d ''metadata'' then Some (expandMetadata d) else None),
      CouponParams_Name = (if HasChange d ''name'' then Some (GetString d ''name'') else None),
      CouponParams_PercentOff = None, CouponParams_RedeemBy = None\<rparr>"
  by (simp add: couponUpdateParams_def Let_def ifTrue_def emptyCouponParams_def)

lemma coupon_update_only_name:
  "snd (snd (resourceStripeCouponUpdate exClient exCouponRenamed)) =
     [CouponsUpdate ''SAVE10''
        \<lparr>CouponParams_ID = None, CouponParams_AmountOff = None, CouponParams_Currency = None,
         CouponParams_Duration = None, CouponParams_DurationInMonths = None,
         CouponParams_MaxRedemptions = None, CouponParams_Metadata = None,
         CouponParams_Name = Some ''Spring sale'',
         CouponParams_PercentOff = None, CouponParams_RedeemBy = None\<rparr>,
      CouponsGet ''SAVE10'']"
  by (simp add: resourceStripeCouponUpdate_def couponUpdateParams_fields Let_def HasChange_def
      nonZero_def GetString_def exCouponRenamed_def exClient_def resourceStripeCouponRead_def)

text \<open>
  C2. The claim that Update sends every updatable field that differs from its
  last-known value fails on the code for the \<open>display_name\<close> of a tax rate: the update
  asks \<open>HasChange\<close> of the key \<open>diplay_name\<close>, which is no attribute of the resource, so
  a changed display name is never part of the request.
\<close>

theorem tax_rate_update_omits_changed_display_name:
  "HasChange exTaxRateRenamed ''display_name''
   \<and> GetString exTaxRateRenamed ''display_name'' = ''Sales tax''
   \<and> snd (snd (resourceStripeTaxRateUpdate exClient exTaxRateRenamed)) =
       [TaxRatesUpdate ''txr_1''
          \<lparr>TaxRateParams_Active = None, TaxRateParams_Description = None,
           TaxRateParams_DisplayName = None, TaxRateParams_Inclusive = None,
           TaxRateParams_Jurisdiction = None, TaxRateParams_Metadata = None,
           TaxRateParams_Percentage = None\<rparr>,
        TaxRatesGet ''txr_1'']"
  by (simp add: resourceStripeTaxRateUpdate_def taxRateUpdateParams_def Let_def HasChange_def
      nonZero_def GetString_def exTaxRateRenamed_def exClient_def resourceStripeTaxRateRead_def
      emptyTaxRateParams_def)

subsection \<open>The round trip of a tier list\<close>

lemma flattenPriceTiers_map: "flattenPriceTiers tiers = map flattenPriceTier tiers"
  by (induction tiers) simp_all

lemma storedPriceTiers_map_Some:
  "storedPriceTiers (map (\<lambda>i. Some (g i)) is) = map (\<lambda>i. storedPriceTier (g i)) is"
  by (induction "is") simp_all

lemma isZero_intOf: "isZero v \<Longrightarrow> intOf v = 0"
  by (cases v) simp_all

lemma roundTripTier_fields:
  assumes "\<not> (nonZero (map_of t ''up_to'') \<noteq> None \<and> map_of t ''up_to_inf'' \<noteq> None)"
    and "map_of t ''flat_amount'' \<noteq> None \<longrightarrow> tierFloat t ''flat_amount_decimal'' = 0"
    and "map_of t ''unit_amount'' \<noteq> None \<longrightarrow> tierFloat t ''unit_amount_decimal'' = 0"
  shows "flattenPriceTier (storedPriceTier
      \<lparr>PriceTierParams_FlatAmount = map_option intOf (map_of t ''flat_amount''),
       PriceTierParams_FlatAmountDecimal =
         (case map_of t ''flat_amount'' of
            Some _ \<Rightarrow> None
          | None \<Rightarrow> map_option floatOf (map_of t ''flat_amount_decimal'')),
       PriceTierParams_UnitAmount = map_option intOf (map_of t ''unit_amount''),
       PriceTierParams_UnitAmountDecimal =
         (case map_of t ''unit_amount'' of
            Some _ \<Rightarrow> None
          | None \<Rightarrow> map_option floatOf (map_of t ''unit_amount_decimal'')),
       PriceTierParams_UpTo = map_option intOf (nonZero (map_of t ''up_to'')),
       PriceTierParams_UpToInf = map_option boolOf (map_of t ''up_to_inf'')\<rparr>)
    = roundTripTier t"
proof -
  let ?p = "\<lparr>PriceTierParams_FlatAmount = map_option intOf (map_of t ''flat_amount''),
       PriceTierParams_FlatAmountDecimal =
         (case map_of t ''flat_amount'' of
            Some _ \<Rightarrow> None
          | None \<Rightarrow> map_option floatOf (map_of t ''flat_amount_decimal'')),
       PriceTierParams_UnitAmount = map_option intOf (map_of t ''unit_amount''),
       PriceTierParams_UnitAmountDecimal =
         (case map_of t ''unit_amount'' of
            Some _ \<Rightarrow> None
          | None \<Rightarrow> map_option floatOf (map_of t ''unit_amount_decimal'')),
       PriceTierParams_UpTo = map_option intOf (nonZero (map_of t ''up_to'')),
       PriceTierParams_UpToInf = map_option boolOf (map_of t ''up_to_inf'')\<rparr>"
  have up: "PriceTier_UpTo (storedPriceTier ?p) = tierInt t ''up_to''"
    by (cases "map_of t ''up_to''")
      (simp_all add: storedPriceTier_def tierInt_def nonZero_def isZero_intOf)
  have inf: "tierBool t ''up_to_inf'' \<longrightarrow> tierInt t ''up_to'' = 0"
  proof
    assume "tierBool t ''up_to_inf''"
    then have "map_of t ''up_to_inf'' \<noteq> None"
      by (auto simp: tierBool_def split: option.splits)
    with assms(1) have "nonZero (map_of t ''up_to'') = None" by simp
    then show "tierInt t ''up_to'' = 0"
      by (auto simp: tierInt_def nonZero_eq_None isZero_intOf)
  qed
  have fa: "PriceTier_FlatAmount (storedPriceTier ?p) = tierInt t ''flat_amount''"
    by (cases "map_of t ''flat_amount''") (simp_all add: storedPriceTier_def tierInt_def)
  have ua: "PriceTier_UnitAmount (storedPriceTier ?p) = tierInt t ''unit_amount''"
    by (cases "map_of t ''unit_amount''") (simp_all add: storedPriceTier_def tierInt_def)
  have fd: "PriceTier_FlatAmountDecimal (storedPriceTier ?p) = tierFloat t ''flat_amount_decimal''"
    using assms(2)
    by (cases "map_of t ''flat_amount''"; cases "map_of t ''flat_amount_decimal''")
      (simp_all add: storedPriceTier_def tierFloat_def)
  have ud: "PriceTier_UnitAmountDecimal (storedPriceTier ?p) = tierFloat t ''unit_amount_decimal''"
    using assms(3)
    by (cases "map_of t ''unit_amount''"; cases "map_of t ''unit_amount_decimal''")
      (simp_all add: storedPriceTier_def tierFloat_def)
  show ?thesis
    unfolding flattenPriceTier_def roundTripTier_def up fa ua fd ud
    using inf by auto
qed

lemma tierAttr_nth:
  "attrs d ''tier'' = Some (VObjs ts) \<Longrightarrow> i < length ts \<Longrightarrow> tierAttr d i f = map_of (ts ! i) f"
  by (simp add: tierAttr_def)

lemma flattenPriceTier_lookup:
  "map_of (flattenPriceTier tier) ''up_to'' = Some (VInt (PriceTier_UpTo tier))"
  "map_of (flattenPriceTier tier) ''up_to_inf'' = Some (VBool (PriceTier_UpTo tier = 0))"
  "map_of (flattenPriceTier tier) ''flat_amount'' = Some (VInt (PriceTier_FlatAmount tier))"
  "map_of (flattenPriceTier tier) ''flat_amount_decimal''
     = Some (VFloat (PriceTier_FlatAmountDecimal tier))"
  "map_of (flattenPriceTier tier) ''unit_amount'' = Some (VInt (PriceTier_UnitAmount tier))"
  "map_of (flattenPriceTier tier) ''unit_amount_decimal''
     = Some (VFloat (PriceTier_UnitAmountDecimal tier))"
  by (simp_all add: flattenPriceTier_def)

text \<open>
  C6, as amended. Take a tier list that passes the validation of expand and in which
  no tier sets an integer amount together with a non-zero decimal form of it. Expanding
  it, reading each tier of the request back as the tier it asks for, and flattening,
  gives the list back in the same order and field for field, except that \<open>up_to_inf\<close> is
  true for a tier whose upper bound is zero. On any list of tiers, flatten keeps the
  length and the order, sets \<open>up_to_inf\<close> to true exactly when \<open>up_to\<close> is zero and hands
  every other field through.
\<close>

theorem price_tiers_round_trip:
  "(attrs d ''tier'' = Some (VObjs ts) \<longrightarrow>
    snd (expandPriceTiers d) = [] \<longrightarrow>
    (\<forall>t \<in> set ts.
         (map_of t ''flat_amount'' \<noteq> None \<longrightarrow> tierFloat t ''flat_amount_decimal'' = 0)
       \<and> (map_of t ''unit_amount'' \<noteq> None \<longrightarrow> tierFloat t ''unit_amount_decimal'' = 0)) \<longrightarrow>
    flattenPriceTiers (storedPriceTiers (fst (expandPriceTiers d))) = map roundTripTier ts)
   \<and> (\<forall>tiers. length (flattenPriceTiers tiers) = length tiers
          \<and> (\<forall>i. i < length tiers \<longrightarrow>
               map_of (flattenPriceTiers tiers ! i) ''up_to''
                 = Some (VInt (PriceTier_UpTo (tiers ! i)))
             \<and> map_of (flattenPriceTiers tiers ! i) ''up_to_inf''
                 = Some (VBool (PriceTier_UpTo (tiers ! i) = 0))
             \<and> map_of (flattenPriceTiers tiers ! i) ''flat_amount''
                 = Some (VInt (PriceTier_FlatAmount (tiers ! i)))
             \<and> map_of (flattenPriceTiers tiers ! i) ''flat_amount_decimal''
                 = Some (VFloat (PriceTier_FlatAmountDecimal (tiers ! i)))
             \<and> map_of (flattenPriceTiers tiers ! i) ''unit_amount''
                 = Some (VInt (PriceTier_UnitAmount (tiers ! i)))
             \<and> map_of (flattenPriceTiers tiers ! i) ''unit_amount_decimal''
                 = Some (VFloat (PriceTier_UnitAmountDecimal (tiers ! i)))))"
proof (intro conjI impI)
  assume a1: "attrs d ''tier'' = Some (VObjs ts)"
    and a2: "snd (expandPriceTiers d) = []"
    and a3: "\<forall>t \<in> set ts.
         (map_of t ''flat_amount'' \<noteq> None \<longrightarrow> tierFloat t ''flat_amount_decimal'' = 0)
       \<and> (map_of t ''unit_amount'' \<noteq> None \<longrightarrow> tierFloat t ''unit_amount_decimal'' = 0)"
  show "flattenPriceTiers (storedPriceTiers (fst (expandPriceTiers d))) = map roundTripTier ts"
  proof (cases "ts = []")
    case True
    with a1 have "GetOk d ''tier'' = None"
      by (simp add: GetOk_def nonZero_def)
    with True show ?thesis by (simp add: expandPriceTiers_def)
  next
    case False
    with a1 have g: "GetOk d ''tier'' = Some (VObjs ts)"
      by (simp add: GetOk_def nonZero_def)
    let ?n = "length ts"
    let ?cf = "\<lambda>i.
      \<lparr>PriceTierParams_FlatAmount = map_option intOf (map_of (ts ! i) ''flat_amount''),
       PriceTierParams_FlatAmountDecimal =
         (case map_of (ts ! i) ''flat_amount'' of
            Some _ \<Rightarrow> None
          | None \<Rightarrow> map_option floatOf (map_of (ts ! i) ''flat_amount_decimal'')),
       PriceTierParams_UnitAmount = map_option intOf (map_of (ts ! i) ''unit_amount''),
       PriceTierParams_UnitAmountDecimal =
         (case map_of (ts ! i) ''unit_amount'' of
            Some _ \<Rightarrow> None
          | None \<Rightarrow> map_option floatOf (map_of (ts ! i) ''unit_amount_decimal'')),
       PriceTierParams_UpTo = map_option intOf (nonZero (map_of (ts ! i) ''up_to'')),
       PriceTierParams_UpToInf = map_option boolOf (map_of (ts ! i) ''up_to_inf'')\<rparr>"
    have f: "fst (expandPriceTiers d) = map (\<lambda>i. fst (expandPriceTier d i)) [0 ..< ?n]"
      and s: "snd (expandPriceTiers d) = concat (map (\<lambda>i. snd (expandPriceTier d i)) [0 ..< ?n])"
      using g by (simp_all add: expandPriceTiers_def expandPriceTiersLoop_fst
          expandPriceTiersLoop_snd)
    have each: "fst (expandPriceTier d i) = Some (?cf i)
        \<and> flattenPriceTier (storedPriceTier (?cf i)) = roundTripTier (ts ! i)"
      if i: "i < ?n" for i
    proof -
      from a2 s i have "snd (expandPriceTier d i) = []" by simp
      then have nc: "\<not> (GetOkTier d i ''up_to'' \<noteq> None \<and> GetOkExistsTier d i ''up_to_inf'' \<noteq> None)"
        by (rule expandPriceTier_no_diag)
      have a: "tierAttr d i f = map_of (ts ! i) f" for f
        using a1 i by (rule tierAttr_nth)
      have 1: "fst (expandPriceTier d i) = Some (?cf i)"
        by (simp add: expandPriceTier_ok [OF nc] a GetOkTier_def cong: option.case_cong)
      from nc have nc': "\<not> (nonZero (map_of (ts ! i) ''up_to'') \<noteq> None
          \<and> map_of (ts ! i) ''up_to_inf'' \<noteq> None)"
        by (simp add: GetOkTier_def GetOkExistsTier_def a)
      from i have "ts ! i \<in> set ts" by simp
      with a3 have
        "map_of (ts ! i) ''flat_amount'' \<noteq> None \<longrightarrow> tierFloat (ts ! i) ''flat_amount_decimal'' = 0"
        "map_of (ts ! i) ''unit_amount'' \<noteq> None \<longrightarrow> tierFloat (ts ! i) ''unit_amount_decimal'' = 0"
        by blast+
      with nc' have "flattenPriceTier (storedPriceTier (?cf i)) = roundTripTier (ts ! i)"
        by (rule roundTripTier_fields)
      with 1 show ?thesis by simp
    qed
    have "fst (expandPriceTiers d) = map (\<lambda>i. Some (?cf i)) [0 ..< ?n]"
      unfolding f by (rule map_cong) (simp_all add: each)
    then have "flattenPriceTiers (storedPriceTiers (fst (expandPriceTiers d)))
        = map (\<lambda>i. flattenPriceTier (storedPriceTier (?cf i))) [0 ..< ?n]"
      by (simp only: storedPriceTiers_map_Some flattenPriceTiers_map map_map comp_def)
    also have "\<dots> = map (\<lambda>i. roundTripTier (ts ! i)) [0 ..< ?n]"
      by (rule map_cong) (simp_all add: each)
    also have "\<dots> = map roundTripTier (map (\<lambda>i. ts ! i) [0 ..< ?n])"
      by (simp only: map_map comp_def)
    also have "\<dots> = map roundTripTier ts"
      by (simp only: map_nth)
    finally show ?thesis .
  qed
next
  show "\<forall>tiers. length (flattenPriceTiers tiers) = length tiers
          \<and> (\<forall>i. i < length tiers \<longrightarrow>
               map_of (flattenPriceTiers tiers ! i) ''up_to''
                 = Some (VInt (PriceTier_UpTo (tiers ! i)))
             \<and> map_of (flattenPriceTiers tiers ! i) ''up_to_inf''
                 = Some (VBool (PriceTier_UpTo (tiers ! i) = 0))
             \<and> map_of (flattenPriceTiers tiers ! i) ''flat_amount''
                 = Some (VInt (PriceTier_FlatAmount (tiers ! i)))
             \<and> map_of (flattenPriceTiers tiers ! i) ''flat_amount_decimal''
                 = Some (VFloat (PriceTier_FlatAmountDecimal (tiers ! i)))
             \<and> map_of (flattenPriceTiers tiers ! i) ''unit_amount''
                 = Some (VInt (PriceTier_UnitAmount (tiers ! i)))
             \<and> map_of (flattenPriceTiers tiers ! i) ''unit_amount_decimal''
                 = Some (VFloat (PriceTier_UnitAmountDecimal (tiers ! i))))"
    by (simp add: flattenPriceTiers_map flattenPriceTier_lookup)
qed

theorem price_tiers_round_trip_witness:
  "attrs exPriceGraduated ''tier'' =
     Some (VObjs [[(''up_to'', VInt 10), (''flat_amount'', VInt 0), (''unit_amount'', VInt 100)],
                  [(''up_to'', VInt 20), (''unit_amount_decimal'', VFloat 75)],
                  [(''up_to_inf'', VBool True), (''unit_amount'', VInt 50)]])
   \<and> snd (expandPriceTiers exPriceGraduated) = []
   \<and> flattenPriceTiers (storedPriceTiers (fst (expandPriceTiers exPriceGraduated))) =
       [[(''up_to'', VInt 10), (''up_to_inf'', VBool False), (''flat_amount'', VInt 0),
         (''flat_amount_decimal'', VFloat 0), (''unit_amount'', VInt 100),
         (''unit_amount_decimal'', VFloat 0)],
        [(''up_to'', VInt 20), (''up_to_inf'', VBool False), (''flat_amount'', VInt 0),
         (''flat_amount_decimal'', VFloat 0), (''unit_amount'', VInt 0),
         (''unit_amount_decimal'', VFloat 75)],
        [(''up_to'', VInt 0), (''up_to_inf'', VBool True), (''flat_amount'', VInt 0),
         (''flat_amount_decimal'', VFloat 0), (''unit_amount'', VInt 50),
         (''unit_amount_decimal'', VFloat 0)]]"
proof -
  let ?ts = "[[(''up_to'', VInt 10), (''flat_amount'', VInt 0), (''unit_amount'', VInt 100)],
              [(''up_to'', VInt 20), (''unit_amount_decimal'', VFloat 75)],
              [(''up_to_inf'', VBool True), (''unit_amount'', VInt 50)]]"
  have a: "attrs exPriceGraduated ''tier'' = Some (VObjs ?ts)"
    by (simp add: exPriceGraduated_def)
  have g: "GetOk exPriceGraduated ''tier'' = Some (VObjs ?ts)"
    by (simp add: GetOk_def nonZero_def exPriceGraduated_def)
  have t0: "tierAttr exPriceGraduated 0 = map_of (?ts ! 0)"
    by (rule ext) (simp add: tierAttr_def exPriceGraduated_def)
  have t1: "tierAttr exPriceGraduated (Suc 0) = map_of (?ts ! Suc 0)"
    by (rule ext) (simp add: tierAttr_def exPriceGraduated_def)
  have t2: "tierAttr exPriceGraduated (Suc (Suc 0)) = map_of (?ts ! Suc (Suc 0))"
    by (rule ext) (simp add: tierAttr_def exPriceGraduated_def)
  have e: "snd (expandPriceTier exPriceGraduated 0) = []"
    "snd (expandPriceTier exPriceGraduated (Suc 0)) = []"
    "snd (expandPriceTier exPriceGraduated (Suc (Suc 0))) = []"
    by (subst expandPriceTier_ok;
        simp add: GetOkTier_def GetOkExistsTier_def t0 t1 t2 nonZero_def)+
  have u: "[0 ..< 3] = [0, Suc 0, Suc (Suc 0)]" by (simp add: upt_rec)
  have s: "snd (expandPriceTiers exPriceGraduated) = []"
    by (simp add: expandPriceTiers_def g expandPriceTiersLoop_snd u e
        del: expandPriceTiersLoop.simps)
  have h: "\<forall>t \<in> set ?ts.
           (map_of t ''flat_amount'' \<noteq> None \<longrightarrow> tierFloat t ''flat_amount_decimal'' = 0)
         \<and> (map_of t ''unit_amount'' \<noteq> None \<longrightarrow> tierFloat t ''unit_amount_decimal'' = 0)"
    by (simp add: tierFloat_def)
  have "flattenPriceTiers (storedPriceTiers (fst (expandPriceTiers exPriceGraduated)))
      = map roundTripTier ?ts"
    by (rule price_tiers_round_trip [of exPriceGraduated ?ts, THEN conjunct1,
          THEN mp, THEN mp, THEN mp, OF a s h])
  then have "flattenPriceTiers (storedPriceTiers (fst (expandPriceTiers exPriceGraduated))) =
       [[(''up_to'', VInt 10), (''up_to_inf'', VBool False), (''flat_amount'', VInt 0),
         (''flat_amount_decimal'', VFloat 0), (''unit_amount'', VInt 100),
         (''unit_amount_decimal'', VFloat 0)],
        [(''up_to'', VInt 20), (''up_to_inf'', VBool False), (''flat_amount'', VInt 0),
         (''flat_amount_decimal'', VFloat 0), (''unit_amount'', VInt 0),
         (''unit_amount_decimal'', VFloat 75)],
        [(''up_to'', VInt 0), (''up_to_inf'', VBool True), (''flat_amount'', VInt 0),
         (''flat_amount_decimal'', VFloat 0), (''unit_amount'', VInt 50),
         (''unit_amount_decimal'', VFloat 0)]]"
    by (simp add: roundTripTier_def tierInt_def tierFloat_def tierBool_def)
  with a s show ?thesis by simp
qed

text \<open>
  The claim as stated fails for a tier that sets both forms of an amount, which the
  validation of expand lets pass: expand sends the integer form only, so the decimal
  form that was set (150) comes back as zero. The request is even the same as for the
  tier without the decimal form, so nothing that reads the request can give it back.
\<close>

theorem price_tier_decimal_form_is_lost:
  "attrs exPriceBothForms ''tier'' =
     Some (VObjs [[(''up_to'', VInt 10), (''flat_amount'', VInt 100),
                   (''flat_amount_decimal'', VFloat 150), (''unit_amount'', VInt 5)]])
   \<and> snd (expandPriceTiers exPriceBothForms) = []
   \<and> flattenPriceTiers (storedPriceTiers (fst (expandPriceTiers exPriceBothForms))) =
       [[(''up_to'', VInt 10), (''up_to_inf'', VBool False), (''flat_amount'', VInt 100),
         (''flat_amount_decimal'', VFloat 0), (''unit_amount'', VInt 5),
         (''unit_amount_decimal'', VFloat 0)]]
   \<and> fst (expandPriceTiers exPriceBothForms) = fst (expandPriceTiers exPriceIntegerForm)"
proof -
  have g: "GetOk exPriceBothForms ''tier'' =
      Some (VObjs [[(''up_to'', VInt 10), (''flat_amount'', VInt 100),
                    (''flat_amount_decimal'', VFloat 150), (''unit_amount'', VInt 5)]])"
    "GetOk exPriceIntegerForm ''tier'' =
      Some (VObjs [[(''up_to'', VInt 10), (''flat_amount'', VInt 100),
                    (''unit_amount'', VInt 5)]])"
    by (simp_all add: GetOk_def nonZero_def exPriceBothForms_def exPriceIntegerForm_def)
  have t: "tierAttr exPriceBothForms 0 =
      map_of [(''up_to'', VInt 10), (''flat_amount'', VInt 100),
              (''flat_amount_decimal'', VFloat 150), (''unit_amount'', VInt 5)]"
    "tierAttr exPriceIntegerForm 0 =
      map_of [(''up_to'', VInt 10), (''flat_amount'', VInt 100), (''unit_amount'', VInt 5)]"
    by (rule ext, simp add: tierAttr_def exPriceBothForms_def exPriceIntegerForm_def)+
  let ?p = "\<lparr>PriceTierParams_FlatAmount = Some 100, PriceTierParams_FlatAmountDecimal = None,
             PriceTierParams_UnitAmount = Some 5, PriceTierParams_UnitAmountDecimal = None,
             PriceTierParams_UpTo = Some 10, PriceTierParams_UpToInf = None\<rparr>"
  have e: "expandPriceTier exPriceBothForms 0 = (Some ?p, [])"
    "expandPriceTier exPriceIntegerForm 0 = (Some ?p, [])"
    by (subst expandPriceTier_ok;
        simp add: GetOkTier_def GetOkExistsTier_def t nonZero_def)+
  have x: "expandPriceTiers exPriceBothForms = ([Some ?p], [])"
    "expandPriceTiers exPriceIntegerForm = ([Some ?p], [])"
    by (simp_all add: expandPriceTiers_def g e)
  have a: "attrs exPriceBothForms ''tier'' =
     Some (VObjs [[(''up_to'', VInt 10), (''flat_amount'', VInt 100),
                   (''flat_amount_decimal'', VFloat 150), (''unit_amount'', VInt 5)]])"
    by (simp add: exPriceBothForms_def)
  show ?thesis
    by (simp add: x a storedPriceTier_def flattenPriceTier_def)
qed

end
